theory Spec2Isabelle
  imports Complex_Main "HOL-Library.Sublist"
begin

section \<open>Python values, events and exceptions\<close>

text \<open>
  The three modules of \<^verbatim>\<open>dexter\<close> under study are \<^verbatim>\<open>server.py\<close> (the session, its
  stream, the worker and the streaming endpoint), \<^verbatim>\<open>model.py\<close> (\<^verbatim>\<open>call_llm\<close>) and
  \<^verbatim>\<open>utils/event_logger.py\<close> (\<^verbatim>\<open>EventLogger\<close>).

  A Python \<^verbatim>\<open>str\<close> is a \<open>string\<close> holding its UTF-8 bytes. A float is kept as a
  mantissa and a binary exponent or as one of the special values.
  An event (\<^verbatim>\<open>Dict[str, Any]\<close>) is an association list in insertion order; the values
  are the ones \<^verbatim>\<open>json\<close> can produce and print.
\<close>

datatype pyfloat = Finite int int | Infinity bool | NaN

datatype pyval =
    PyNone
  | PyBool bool
  | PyInt int
  | PyFloat pyfloat
  | PyStr string
  | PyList "pyval list"
  | PyDict "(string \<times> pyval) list"

type_synonym payload = "(string \<times> pyval) list"

text \<open>\<^verbatim>\<open>payload.get(key)\<close>: the value stored under the key, \<^verbatim>\<open>None\<close> when there is none.\<close>

definition dict_get :: "payload \<Rightarrow> string \<Rightarrow> pyval" where
  "dict_get payload key = (case map_of payload key of Some v \<Rightarrow> v | None \<Rightarrow> PyNone)"

text \<open>
  An exception is its class, as far as the handlers of the three modules tell classes
  apart, and the text \<^verbatim>\<open>str(exc)\<close> gives. \<open>APIConnectionError\<close> is the class
  \<^verbatim>\<open>call_llm\<close> retries on (or a subclass of it), \<open>OtherException\<close> any other subclass of
  \<^verbatim>\<open>Exception\<close>, \<open>TypeError\<close> the one the interpreter raises itself, and
  \<open>BaseExceptionOnly\<close> a \<^verbatim>\<open>BaseException\<close> that is no \<^verbatim>\<open>Exception\<close>
  (\<^verbatim>\<open>KeyboardInterrupt\<close>, \<^verbatim>\<open>SystemExit\<close>), which \<^verbatim>\<open>except Exception\<close> lets through.
\<close>

datatype exc_class = APIConnectionError | TypeError | OtherException | BaseExceptionOnly

datatype pyexc = PyExc exc_class string

fun exc_class_of :: "pyexc \<Rightarrow> exc_class" where
  "exc_class_of (PyExc cls text) = cls"

fun str_exc :: "pyexc \<Rightarrow> string" where
  "str_exc (PyExc cls text) = text"

definition is_Exception :: "pyexc \<Rightarrow> bool" where
  "is_Exception e = (exc_class_of e \<noteq> BaseExceptionOnly)"

section \<open>\<^verbatim>\<open>server.py\<close>: the session and its stream\<close>

text \<open>
  \<^verbatim>\<open>AgentSession\<close>. The field \<open>queue\<close> is the content of the \<^verbatim>\<open>asyncio.Queue\<close>: the
  payloads that have been put and not yet taken, oldest first. For a run of \<^verbatim>\<open>stream\<close>
  it holds every payload that is put before the generator ends: the generator suspends
  in \<^verbatim>\<open>queue.get()\<close> until the next one arrives, and never returns there on its own.
\<close>

record session =
  queue :: "payload list"
  finished :: bool
  error :: "string option"

definition new_session :: session where
  "new_session = \<lparr>queue = [], finished = False, error = None\<rparr>"

text \<open>
  \<^verbatim>\<open>emit\<close> schedules \<^verbatim>\<open>queue.put(payload)\<close> on the loop; the scheduled puts run in the
  order of the calls.
\<close>

definition emit :: "session \<Rightarrow> payload \<Rightarrow> session" where
  "emit s payload = s\<lparr>queue := queue s @ [payload]\<rparr>"

text \<open>
  The test \<^verbatim>\<open>payload.get("type") in {"done", "error"}\<close>. Membership in a set hashes the
  value, so a list or a dict under \<open>type\<close> raises \<^verbatim>\<open>TypeError\<close>; any other value that
  is not one of the two strings is simply not a member.
\<close>

datatype membership = Member | NotMember | Unhashable

fun in_done_error :: "pyval \<Rightarrow> membership" where
  "in_done_error (PyStr t) = (if t = ''done'' \<or> t = ''error'' then Member else NotMember)"
| "in_done_error (PyList xs) = Unhashable"
| "in_done_error (PyDict kvs) = Unhashable"
| "in_done_error v = NotMember"

definition is_terminal :: "payload \<Rightarrow> bool" where
  "is_terminal payload = (in_done_error (dict_get payload ''type'') = Member)"

text \<open>
  How a run of the generator ends. \<open>Break\<close>: the loop was left after a terminal
  payload. \<open>Cancelled\<close>: the generator had started, the consumer went away, and the
  generator was torn down where it stood (\<^verbatim>\<open>CancelledError\<close> in \<^verbatim>\<open>queue.get()\<close> on an
  empty queue, or \<^verbatim>\<open>GeneratorExit\<close> at the \<^verbatim>\<open>yield\<close>). \<open>Raised\<close>: the membership
  test raised. \<open>Waiting\<close>: the generator never ends; it stays suspended in
  \<^verbatim>\<open>queue.get()\<close> on an empty queue. \<open>NotStarted\<close>: the consumer went away before it
  asked for a first frame, so the body of the generator, its \<^verbatim>\<open>try\<close> statement
  included, was never entered.
\<close>

datatype stream_exit = Break | Cancelled | Raised pyexc | Waiting | NotStarted

text \<open>
  The \<^verbatim>\<open>while True\<close> loop of \<^verbatim>\<open>stream\<close>. The first argument is the consumer:
  \<open>None\<close> takes every frame it is offered and waits for ever when there is none;
  \<open>Some n\<close> takes \<open>n\<close> frames and then goes away without resuming the generator, and
  goes away earlier when it has to wait at an empty queue. So \<open>Some 0\<close> never starts
  the generator. A generator that has started and finds a payload in the queue does
  not suspend in \<^verbatim>\<open>queue.get()\<close> and reaches its \<^verbatim>\<open>yield\<close>: the frame of that payload
  is taken. The result is the payloads whose frames were yielded, in order, how the
  loop ended, and what is left in the queue.
\<close>

fun stream_loop :: "nat option \<Rightarrow> payload list \<Rightarrow> payload list \<times> stream_exit \<times> payload list" where
  "stream_loop (Some 0) q = ([], NotStarted, q)"
| "stream_loop None [] = ([], Waiting, [])"
| "stream_loop (Some (Suc n)) [] = ([], Cancelled, [])"
| "stream_loop consumer (payload # q) =
     (if consumer = Some 1 then ([payload], Cancelled, q)
      else case in_done_error (dict_get payload ''type'') of
        Unhashable \<Rightarrow> ([payload], Raised (PyExc TypeError ''unhashable type''), q)
      | Member \<Rightarrow> ([payload], Break, q)
      | NotMember \<Rightarrow>
          (case stream_loop (map_option (\<lambda>n. n - 1) consumer) q of
             (yielded, how, rest) \<Rightarrow> (payload # yielded, how, rest)))"

text \<open>
  A frame is \<^verbatim>\<open>{"data": json.dumps(payload, ensure_ascii=False)}\<close>. The encoder is the
  standard library's; it is a parameter here, taking the \<^verbatim>\<open>ensure_ascii\<close> flag first.
\<close>

record frame =
  data :: string

type_synonym json_dumps = "bool \<Rightarrow> payload \<Rightarrow> string"

definition sse_frame :: "json_dumps \<Rightarrow> payload \<Rightarrow> frame" where
  "sse_frame dumps payload = \<lparr>data = dumps False payload\<rparr>"

text \<open>
  \<^verbatim>\<open>AgentSession.stream\<close>: the loop inside \<^verbatim>\<open>try\<close>, and \<^verbatim>\<open>finished.set()\<close> in
  \<^verbatim>\<open>finally\<close>, which runs when a generator that has entered the \<^verbatim>\<open>try\<close> statement
  ends. It does not run for a generator that never started, nor for one that waits for
  ever.
\<close>

definition stream :: "json_dumps \<Rightarrow> nat option \<Rightarrow> session \<Rightarrow> frame list \<times> stream_exit \<times> session" where
  "stream dumps consumer s =
     (case stream_loop consumer (queue s) of
        (yielded, how, rest) \<Rightarrow>
          (map (sse_frame dumps) yielded, how,
           s\<lparr>queue := rest,
              finished := (if how = Waiting \<or> how = NotStarted then finished s else True)\<rparr>))"

section \<open>\<^verbatim>\<open>server.py\<close>: the worker and the streaming endpoint\<close>

text \<open>\<^verbatim>\<open>RunRequest\<close>: the body of \<^verbatim>\<open>POST /api/run\<close>.\<close>

record run_request =
  query :: string
  max_steps :: "int option"
  max_steps_per_task :: "int option"

text \<open>
  \<^verbatim>\<open>x or d\<close> for an \<^verbatim>\<open>Optional[int]\<close>: \<^verbatim>\<open>None\<close> and \<^verbatim>\<open>0\<close> are the falsy values.
\<close>

definition or_default :: "int option \<Rightarrow> int \<Rightarrow> int" where
  "or_default x d = (case x of None \<Rightarrow> d | Some n \<Rightarrow> if n = 0 then d else n)"

text \<open>
  The task executor is not part of the three modules. Its constructor takes
  \<^verbatim>\<open>max_steps\<close> and \<^verbatim>\<open>max_steps_per_task\<close> (and the logger) and gives an instance or
  raises; \<^verbatim>\<open>run\<close> takes the query and gives the payloads it passed to \<^verbatim>\<open>emit\<close>
  through the logger, then the answer or the exception it raised.
\<close>

type_synonym 'a agent_init = "int \<Rightarrow> int \<Rightarrow> pyexc + 'a"
type_synonym 'a agent_run = "'a \<Rightarrow> string \<Rightarrow> payload list \<times> (pyexc + string)"

text \<open>What the worker does, in order.\<close>

datatype worker_step = Construct int int | Run string | Emit payload | SetFinished

text \<open>
  The \<^verbatim>\<open>except Exception\<close> clause of \<^verbatim>\<open>worker\<close>: an \<^verbatim>\<open>Exception\<close> becomes an error
  event and is dropped, anything else goes on.
\<close>

definition worker_except :: "pyexc \<Rightarrow> worker_step list \<times> pyexc option" where
  "worker_except exc =
     (if is_Exception exc
      then ([Emit [(''type'', PyStr ''error''), (''message'', PyStr (str_exc exc))]], None)
      else ([], Some exc))"

text \<open>
  \<^verbatim>\<open>worker\<close>: the steps it takes and the exception that leaves it, if any.
  \<^verbatim>\<open>session.finished.set()\<close> is the \<^verbatim>\<open>finally\<close> clause.
\<close>

definition worker :: "'a agent_init \<Rightarrow> 'a agent_run \<Rightarrow> run_request \<Rightarrow> worker_step list \<times> pyexc option" where
  "worker Agent run request =
     (let ms = or_default (max_steps request) 20;
          mspt = or_default (max_steps_per_task request) 5;
          (steps, raised) =
            (case Agent ms mspt of
               Inl exc \<Rightarrow>
                 (case worker_except exc of (handler, raised) \<Rightarrow> (Construct ms mspt # handler, raised))
             | Inr agent \<Rightarrow>
                 (case run agent (query request) of
                    (logged, Inr answer) \<Rightarrow>
                      (Construct ms mspt # Run (query request) # map Emit logged
                         @ [Emit [(''type'', PyStr ''done''), (''answer'', PyStr answer)]], None)
                  | (logged, Inl exc) \<Rightarrow>
                      (case worker_except exc of (handler, raised) \<Rightarrow>
                         (Construct ms mspt # Run (query request) # map Emit logged @ handler, raised))))
      in (steps @ [SetFinished], raised))"

text \<open>The effect of the worker's steps on its session.\<close>

fun run_step :: "session \<Rightarrow> worker_step \<Rightarrow> session" where
  "run_step s (Emit payload) = emit s payload"
| "run_step s SetFinished = s\<lparr>finished := True\<rparr>"
| "run_step s (Construct ms mspt) = s"
| "run_step s (Run q) = s"

definition run_steps :: "session \<Rightarrow> worker_step list \<Rightarrow> session" where
  "run_steps s steps = foldl run_step s steps"

text \<open>\<^verbatim>\<open>DexterServer.sessions\<close>, the registry, and \<^verbatim>\<open>self.sessions.pop(run_id, None)\<close>.\<close>

type_synonym registry = "string \<rightharpoonup> session"

definition sessions_pop :: "registry \<Rightarrow> string \<Rightarrow> registry" where
  "sessions_pop sessions run_id = sessions(run_id := None)"

datatype http_error = HTTPException nat string

text \<open>
  \<^verbatim>\<open>event_generator\<close> passes on the frames of \<^verbatim>\<open>session.stream()\<close>; the \<^verbatim>\<open>pop\<close> is
  the statement after its \<^verbatim>\<open>async for\<close> loop, reached when the loop ends because the
  inner generator is exhausted. The session is an object shared with the registry, so
  while it is registered the registry shows what the stream did to it. A consumer that
  never asks for a frame starts neither generator.
\<close>

definition event_generator ::
    "json_dumps \<Rightarrow> nat option \<Rightarrow> registry \<Rightarrow> string \<Rightarrow> session \<Rightarrow> frame list \<times> stream_exit \<times> registry" where
  "event_generator dumps consumer sessions run_id session =
     (case stream dumps consumer session of
        (frames, how, session') \<Rightarrow>
          (frames, how,
           if how = Break then sessions_pop sessions run_id
           else sessions(run_id \<mapsto> session')))"

text \<open>\<^verbatim>\<open>stream_events\<close>, the handler of \<^verbatim>\<open>GET /api/run/{run_id}/events\<close>.\<close>

definition stream_events ::
    "json_dumps \<Rightarrow> nat option \<Rightarrow> registry \<Rightarrow> string \<Rightarrow> http_error + frame list \<times> stream_exit \<times> registry" where
  "stream_events dumps consumer sessions run_id =
     (case sessions run_id of
        None \<Rightarrow> Inl (HTTPException 404 ''Run not found'')
      | Some session \<Rightarrow> Inr (event_generator dumps consumer sessions run_id session))"

section \<open>Strings: \<^verbatim>\<open>strip\<close>, \<^verbatim>\<open>lower\<close>, \<^verbatim>\<open>replace\<close>\<close>

text \<open>
  \<^verbatim>\<open>str.strip()\<close> removes the code points \<^verbatim>\<open>str.isspace\<close> accepts from both ends,
  first from the left, then from the right of what is left. In UTF-8 they are one,
  two or three bytes long:
  U+0009..U+000D, U+001C..U+0020; U+0085, U+00A0; U+1680, U+2000..U+200A, U+2028,
  U+2029, U+202F, U+205F, U+3000.
\<close>

definition is_space1 :: "char \<Rightarrow> bool" where
  "is_space1 a = (let x = (of_char a :: nat) in (9 \<le> x \<and> x \<le> 13) \<or> (28 \<le> x \<and> x \<le> 32))"

definition is_space2 :: "char \<Rightarrow> char \<Rightarrow> bool" where
  "is_space2 a b =
     (let x = (of_char a :: nat); y = (of_char b :: nat)
      in x = 0xC2 \<and> (y = 0x85 \<or> y = 0xA0))"

definition is_space3 :: "char \<Rightarrow> char \<Rightarrow> char \<Rightarrow> bool" where
  "is_space3 a b c =
     (let x = (of_char a :: nat); y = (of_char b :: nat); z = (of_char c :: nat)
      in (x = 0xE1 \<and> y = 0x9A \<and> z = 0x80)
       \<or> (x = 0xE2 \<and> y = 0x80 \<and> ((0x80 \<le> z \<and> z \<le> 0x8A) \<or> z = 0xA8 \<or> z = 0xA9 \<or> z = 0xAF))
       \<or> (x = 0xE2 \<and> y = 0x81 \<and> z = 0x9F)
       \<or> (x = 0xE3 \<and> y = 0x80 \<and> z = 0x80))"

fun lstrip :: "string \<Rightarrow> string" where
  "lstrip (a # b # c # s) =
     (if is_space1 a then lstrip (b # c # s)
      else if is_space2 a b then lstrip (c # s)
      else if is_space3 a b c then lstrip s
      else a # b # c # s)"
| "lstrip [a, b] = (if is_space1 a then lstrip [b] else if is_space2 a b then [] else [a, b])"
| "lstrip [a] = (if is_space1 a then [] else [a])"
| "lstrip [] = []"

text \<open>The same from the right, on the reversed string: the last byte comes first.\<close>

fun rstrip_rev :: "string \<Rightarrow> string" where
  "rstrip_rev (c # b # a # s) =
     (if is_space1 c then rstrip_rev (b # a # s)
      else if is_space2 b c then rstrip_rev (a # s)
      else if is_space3 a b c then rstrip_rev s
      else c # b # a # s)"
| "rstrip_rev [c, b] = (if is_space1 c then rstrip_rev [b] else if is_space2 b c then [] else [c, b])"
| "rstrip_rev [c] = (if is_space1 c then [] else [c])"
| "rstrip_rev [] = []"

definition rstrip :: "string \<Rightarrow> string" where
  "rstrip s = rev (rstrip_rev (rev s))"

definition str_strip :: "string \<Rightarrow> string" where
  "str_strip s = rstrip (lstrip s)"

text \<open>
  The same set of code points written out, each as the bytes of its UTF-8 encoding:
  the characters \<^verbatim>\<open>strip()\<close> takes off either end of a string.
\<close>

definition unicode_whitespace :: "string list" where
  "unicode_whitespace =
     [[CHR 0x09], [CHR 0x0A], [CHR 0x0B], [CHR 0x0C], [CHR 0x0D],
      [CHR 0x1C], [CHR 0x1D], [CHR 0x1E], [CHR 0x1F], [CHR 0x20],
      [CHR 0xC2, CHR 0x85], [CHR 0xC2, CHR 0xA0],
      [CHR 0xE1, CHR 0x9A, CHR 0x80],
      [CHR 0xE2, CHR 0x80, CHR 0x80], [CHR 0xE2, CHR 0x80, CHR 0x81], [CHR 0xE2, CHR 0x80, CHR 0x82],
      [CHR 0xE2, CHR 0x80, CHR 0x83], [CHR 0xE2, CHR 0x80, CHR 0x84], [CHR 0xE2, CHR 0x80, CHR 0x85],
      [CHR 0xE2, CHR 0x80, CHR 0x86], [CHR 0xE2, CHR 0x80, CHR 0x87], [CHR 0xE2, CHR 0x80, CHR 0x88],
      [CHR 0xE2, CHR 0x80, CHR 0x89], [CHR 0xE2, CHR 0x80, CHR 0x8A],
      [CHR 0xE2, CHR 0x80, CHR 0xA8], [CHR 0xE2, CHR 0x80, CHR 0xA9], [CHR 0xE2, CHR 0x80, CHR 0xAF],
      [CHR 0xE2, CHR 0x81, CHR 0x9F],
      [CHR 0xE3, CHR 0x80, CHR 0x80]]"

text \<open>
  \<^verbatim>\<open>str.lower()\<close> on the letters A to Z. Letters outside ASCII are left as they are:
  the lower case of such a letter is never an ASCII letter other than \<open>k\<close> (from the
  Kelvin sign), so this does not change which strings are equal, after lowering, to one
  of \<open>none\<close>, \<open>function_calling\<close>, \<open>json_schema\<close> and \<open>bind\<close>.
\<close>

definition char_lower :: "char \<Rightarrow> char" where
  "char_lower a = (let x = (of_char a :: nat) in if 65 \<le> x \<and> x \<le> 90 then char_of (x + 32) else a)"

definition str_lower :: "string \<Rightarrow> string" where
  "str_lower s = map char_lower s"

text \<open>
  \<^verbatim>\<open>s.replace(old, new)\<close>: every occurrence of \<open>old\<close>, found from left to right without
  overlap, becomes \<open>new\<close>. With an empty \<open>old\<close> Python puts \<open>new\<close> before every
  character and at the end (of an ASCII string, in this model of strings).
\<close>

function str_replace :: "string \<Rightarrow> string \<Rightarrow> string \<Rightarrow> string" where
  "str_replace old new s =
     (if old = [] then new @ concat (map (\<lambda>c. c # new) s)
      else if s = [] then []
      else if prefix old s then new @ str_replace old new (drop (length old) s)
      else hd s # str_replace old new (tl s))"
  by pat_completeness auto
termination
  by (relation "measure (\<lambda>(old, new, s). length s)") auto

declare str_replace.simps [simp del]

section \<open>\<^verbatim>\<open>model.py\<close>: \<^verbatim>\<open>call_llm\<close>\<close>

text \<open>\<^verbatim>\<open>os.environ\<close> and \<^verbatim>\<open>os.getenv(name, fallback)\<close>.\<close>

type_synonym environ = "string \<rightharpoonup> string"

definition getenv :: "environ \<Rightarrow> string \<Rightarrow> string \<Rightarrow> string" where
  "getenv env name fallback = (case env name of Some v \<Rightarrow> v | None \<Rightarrow> fallback)"

text \<open>
  What \<^verbatim>\<open>runnable\<close> can be: the client itself, \<^verbatim>\<open>llm.with_structured_output(schema,
  method=...)\<close> or \<^verbatim>\<open>llm.bind_tools(tools)\<close>.
\<close>

datatype ('s, 't) runnable = Llm | WithStructuredOutput 's string | BindTools "'t list"

text \<open>
  Lines 36 to 50 of \<^verbatim>\<open>call_llm\<close>. A schema is a class and always truthy; a tool list
  is truthy when it is there and not empty.
\<close>

definition select_runnable :: "environ \<Rightarrow> 's option \<Rightarrow> 't list option \<Rightarrow> ('s, 't) runnable" where
  "select_runnable env output_schema tools =
     (case output_schema of
        Some schema \<Rightarrow>
          (let method = str_lower (str_strip (getenv env ''DEXTER_LLM_STRUCTURED_OUTPUT_METHOD'' ''function_calling''))
           in if method = ''none'' then Llm
              else if method = ''function_calling'' \<or> method = ''json_schema''
              then WithStructuredOutput schema method
              else WithStructuredOutput schema ''function_calling'')
      | None \<Rightarrow>
          (case tools of
             Some (t # ts) \<Rightarrow>
               (let tool_bind = str_lower (str_strip (getenv env ''DEXTER_LLM_TOOL_BIND'' ''bind''))
                in if tool_bind = ''bind'' then BindTools (t # ts) else Llm)
           | _ \<Rightarrow> Llm))"

text \<open>\<^verbatim>\<open>chain = prompt_template | runnable\<close>.\<close>

record ('s, 't) chain =
  prompt_template :: "(string \<times> string) list"
  runnable :: "('s, 't) runnable"

text \<open>
  What the retry loop does, in order: \<open>Invoke n\<close> is the call
  \<^verbatim>\<open>chain.invoke({"prompt": prompt})\<close> of attempt \<open>n\<close>, \<open>Sleep d\<close> is
  \<^verbatim>\<open>time.sleep(d)\<close>, \<open>d\<close> in seconds.
\<close>

datatype llm_step = Invoke nat | Sleep rat

text \<open>
  The loop \<^verbatim>\<open>for attempt in range(3)\<close>, over the attempts still to make. The provider
  is a function from the number of the attempt to what the call does then: it returns a
  response or raises. A loop that runs out of attempts falls off the end of
  \<^verbatim>\<open>call_llm\<close>, which then returns \<^verbatim>\<open>None\<close>.
\<close>

fun retry_loop :: "(nat \<Rightarrow> pyexc + 'r) \<Rightarrow> nat list \<Rightarrow> llm_step list \<times> (pyexc + 'r option)" where
  "retry_loop invoke [] = ([], Inr None)"
| "retry_loop invoke (attempt # rest) =
     (case invoke attempt of
        Inr response \<Rightarrow> ([Invoke attempt], Inr (Some response))
      | Inl e \<Rightarrow>
          if exc_class_of e = APIConnectionError then
            (if attempt = 2 then ([Invoke attempt], Inl e)
             else (case retry_loop invoke rest of
                     (steps, result) \<Rightarrow> (Invoke attempt # Sleep ((1 / 2) * 2 ^ attempt) # steps, result)))
          else ([Invoke attempt], Inl e))"

text \<open>
  Lines 29 to 52 of \<^verbatim>\<open>call_llm\<close>: the chain that is invoked.
  \<open>default_system_prompt\<close> is \<^verbatim>\<open>DEFAULT_SYSTEM_PROMPT\<close> of \<^verbatim>\<open>dexter.prompts\<close>; an
  empty \<^verbatim>\<open>system_prompt\<close> is falsy like \<^verbatim>\<open>None\<close>.
\<close>

definition build_chain ::
    "environ \<Rightarrow> string \<Rightarrow> string option \<Rightarrow> 's option \<Rightarrow> 't list option \<Rightarrow> ('s, 't) chain" where
  "build_chain env default_system_prompt system_prompt output_schema tools =
     (let final_system_prompt =
            (case system_prompt of
               Some sp \<Rightarrow> if sp \<noteq> [] then sp else default_system_prompt
             | None \<Rightarrow> default_system_prompt)
      in \<lparr>prompt_template = [(''system'', final_system_prompt), (''user'', ''{prompt}'')],
          runnable = select_runnable env output_schema tools\<rparr>)"

text \<open>
  \<^verbatim>\<open>call_llm\<close>: what it does, in order, and the response it returns or the exception
  it raises. \<open>invoke\<close> is the provider behind \<^verbatim>\<open>chain.invoke\<close>: given the chain, the
  prompt and the number of the attempt it returns a response or raises.
\<close>

definition call_llm ::
    "environ \<Rightarrow> string \<Rightarrow> (('s, 't) chain \<Rightarrow> string \<Rightarrow> nat \<Rightarrow> pyexc + 'r) \<Rightarrow>
     string \<Rightarrow> string option \<Rightarrow> 's option \<Rightarrow> 't list option \<Rightarrow> llm_step list \<times> (pyexc + 'r option)" where
  "call_llm env default_system_prompt invoke prompt system_prompt output_schema tools =
     retry_loop (invoke (build_chain env default_system_prompt system_prompt output_schema tools) prompt)
       [0, 1, 2]"

section \<open>\<^verbatim>\<open>utils/event_logger.py\<close>: \<^verbatim>\<open>EventLogger\<close>\<close>

text \<open>
  \<^verbatim>\<open>json.loads\<close> is the standard library's; it is a parameter here, \<open>None\<close> where it
  raises.
\<close>

type_synonym json_loads = "string \<Rightarrow> pyval option"

text \<open>\<^verbatim>\<open>log_tool_run\<close>: the payload it passes to \<^verbatim>\<open>emit\<close>.\<close>

definition log_tool_run :: "json_loads \<Rightarrow> string \<Rightarrow> string \<Rightarrow> payload" where
  "log_tool_run loads tool result =
     (let payload = [(''type'', PyStr ''tool_run''), (''tool'', PyStr tool)]
      in if result \<noteq> [] then
           (let parsed = (case loads result of Some v \<Rightarrow> v | None \<Rightarrow> PyNone)
            in payload @ [(''result'', if parsed \<noteq> PyNone then parsed else PyStr result)])
         else payload)"

text \<open>The two characters \<^verbatim>\<open>" \<close> and U+2713 (check mark), in UTF-8.\<close>

definition check_mark :: string where
  "check_mark = [CHR 0x20, CHR 0xE2, CHR 0x9C, CHR 0x93]"

text \<open>
  \<^verbatim>\<open>progress\<close>, a context manager. The body of the \<^verbatim>\<open>with\<close> statement is given by the
  payloads it emits and the exception it raises, if any; the result is every payload
  emitted from entry to exit and the exception that leaves the \<^verbatim>\<open>with\<close> statement.
\<close>

definition progress :: "string \<Rightarrow> string \<Rightarrow> payload list \<times> pyexc option \<Rightarrow> payload list \<times> pyexc option" where
  "progress message success_message body =
     (let start = [(''type'', PyStr ''progress''), (''status'', PyStr ''start''), (''message'', PyStr message)]
      in case body of
        (inner, None) \<Rightarrow>
          (let completed = (if success_message \<noteq> [] then success_message
                            else str_replace ''...'' check_mark message)
           in (start # inner @
                 [[(''type'', PyStr ''progress''), (''status'', PyStr ''complete''), (''message'', PyStr completed)]],
               None))
      | (inner, Some exc) \<Rightarrow>
          if is_Exception exc then
            (start # inner @
               [[(''type'', PyStr ''progress''), (''status'', PyStr ''error''),
                 (''message'', PyStr (message @ '' failed: '' @ str_exc exc))]],
             Some exc)
          else (start # inner, Some exc))"

text \<open>
  A decoder for the examples below. It agrees with \<^verbatim>\<open>json.loads\<close> on the three
  strings the examples decode: \<^verbatim>\<open>null\<close> is \<^verbatim>\<open>None\<close>, \<^verbatim>\<open>{"a":1}\<close> is a dict, and
  \<^verbatim>\<open>not data\<close> is no JSON text.
\<close>

definition loads_sample :: json_loads where
  "loads_sample s =
     (if s = ''null'' then Some PyNone
      else if s = ''{'' @ [CHR 0x22] @ ''a'' @ [CHR 0x22] @ '':1}'' then Some (PyDict [(''a'', PyInt 1)])
      else None)"

section \<open>Properties of the stream\<close>

lemma stream_loop_yield_queue:
  "stream_loop consumer q = (yielded, how, rest) \<Longrightarrow> q = yielded @ rest"
  by (induction consumer q arbitrary: yielded how rest rule: stream_loop.induct)
     (auto split: membership.splits prod.splits if_splits)

lemma stream_loop_butlast:
  "stream_loop consumer q = (yielded, how, rest) \<Longrightarrow>
     list_all (\<lambda>p. \<not> is_terminal p) (butlast yielded)"
  by (induction consumer q arbitrary: yielded how rest rule: stream_loop.induct)
     (auto simp: is_terminal_def split: membership.splits prod.splits if_splits)

lemma stream_loop_break:
  "stream_loop consumer q = (yielded, Break, rest) \<Longrightarrow>
     yielded \<noteq> [] \<and> is_terminal (last yielded)"
  by (induction consumer q arbitrary: yielded rest rule: stream_loop.induct)
     (auto simp: is_terminal_def split: membership.splits prod.splits if_splits)

lemma stream_loop_not_started:
  "stream_loop consumer q = (yielded, how, rest) \<Longrightarrow> (how = NotStarted) = (consumer = Some 0)"
  by (induction consumer q arbitrary: yielded how rest rule: stream_loop.induct)
     (auto split: membership.splits prod.splits if_splits)

lemma stream_loop_waiting:
  "stream_loop consumer q = (yielded, Waiting, rest) \<Longrightarrow> consumer = None"
  by (induction consumer q arbitrary: yielded rest rule: stream_loop.induct)
     (auto split: membership.splits prod.splits if_splits)

lemma stream_loop_Cons:
  "consumer \<noteq> Some 0 \<Longrightarrow>
     stream_loop consumer (payload # q) =
       (if consumer = Some 1 then ([payload], Cancelled, q)
        else case in_done_error (dict_get payload ''type'') of
          Unhashable \<Rightarrow> ([payload], Raised (PyExc TypeError ''unhashable type''), q)
        | Member \<Rightarrow> ([payload], Break, q)
        | NotMember \<Rightarrow>
            (case stream_loop (map_option (\<lambda>n. n - 1) consumer) q of
               (yielded, how, rest) \<Rightarrow> (payload # yielded, how, rest)))"
proof (cases consumer)
  case None
  then show ?thesis by (simp split: membership.splits)
next
  case (Some a)
  assume "consumer \<noteq> Some 0"
  with Some show ?thesis by (cases a) (simp_all split: membership.splits)
qed

text \<open>
  A queue whose first terminal payload \<open>t\<close> comes after payloads \<open>pre\<close> that pass the
  membership test, and a consumer that takes more than \<open>length pre\<close> frames: what is
  yielded is \<open>pre\<close> and then \<open>t\<close>, and nothing of what follows \<open>t\<close> in the queue.
\<close>

lemma stream_loop_reaches_terminal:
  "list_all (\<lambda>p. in_done_error (dict_get p ''type'') = NotMember) pre \<Longrightarrow> is_terminal t \<Longrightarrow>
   consumer = None \<or> (\<exists>n. consumer = Some n \<and> length pre < n) \<Longrightarrow>
     stream_loop consumer (pre @ t # post)
       = (pre @ [t], if consumer = Some (length pre + 1) then Cancelled else Break, post)"
proof (induction pre arbitrary: consumer)
  case Nil
  then have "consumer \<noteq> Some 0"
    by auto
  then show ?case
    using Nil by (auto simp: stream_loop_Cons is_terminal_def)
next
  case (Cons p pre)
  have next_consumer: "map_option (\<lambda>n. n - 1) consumer = None
      \<or> (\<exists>n. map_option (\<lambda>n. n - 1) consumer = Some n \<and> length pre < n)"
    using Cons.prems(3) by auto
  have "stream_loop (map_option (\<lambda>n. n - 1) consumer) (pre @ t # post)
       = (pre @ [t],
          if map_option (\<lambda>n. n - 1) consumer = Some (length pre + 1) then Cancelled else Break, post)"
    using Cons.IH [OF _ Cons.prems(2) next_consumer] Cons.prems(1) by simp
  moreover have "consumer \<noteq> Some 1" "consumer \<noteq> Some 0"
    using Cons.prems(3) by auto
  moreover have "in_done_error (dict_get p ''type'') = NotMember"
    using Cons.prems(1) by simp
  moreover have "(map_option (\<lambda>n. n - 1) consumer = Some (length pre + 1))
       = (consumer = Some (length (p # pre) + 1))"
    using Cons.prems(3) by (cases consumer) auto
  ultimately show ?case
    by (simp add: stream_loop_Cons)
qed

lemma filter_butlast_none:
  "list_all (\<lambda>p. \<not> P p) (butlast xs) \<Longrightarrow> length (filter P xs) \<le> 1"
  by (induction xs) (auto simp: list_all_iff filter_empty_conv split: if_splits)

lemma filter_last_one:
  "list_all (\<lambda>p. \<not> P p) (butlast xs) \<Longrightarrow> xs \<noteq> [] \<Longrightarrow> P (last xs) \<Longrightarrow>
     length (filter P xs) = 1"
  by (induction xs) (auto simp: list_all_iff filter_empty_conv split: if_splits)

text \<open>
  C1, as amended. Whatever the queue holds and whatever the consumer does, the frames
  \<^verbatim>\<open>stream\<close> yields are those of a prefix of the queue, in order; no payload before the
  last one yielded is terminal, so at most one terminal event is yielded and nothing
  follows it. When the generator ends by leaving its loop (\<open>Break\<close>), the last frame is
  that of a terminal event and it is the only one. Stated on the queue alone: when the
  first terminal payload \<open>t\<close> of the queue comes after payloads \<open>pre\<close> that pass the
  membership test and the consumer takes more than \<open>length pre\<close> frames, the payloads
  yielded are exactly \<open>pre\<close> and then \<open>t\<close>, one terminal event, and the generator leaves
  its loop unless the consumer goes away at that very frame.

  A generator that has started and ends (left the loop, torn down inside
  \<^verbatim>\<open>queue.get()\<close> or at a \<^verbatim>\<open>yield\<close>, or raised) marks the session finished. The flag
  is left as it was in the two other cases: the generator waits for ever, which needs
  a consumer that never goes away, or it was never started, which is the case exactly
  when the consumer takes no frame at all; then nothing is yielded and the session is
  untouched.
\<close>

theorem stream_terminal_last:
  assumes "stream dumps consumer s = (frames, how, s')"
  shows "\<exists>yielded. queue s = yielded @ queue s' \<and> frames = map (sse_frame dumps) yielded
           \<and> list_all (\<lambda>p. \<not> is_terminal p) (butlast yielded)
           \<and> length (filter is_terminal yielded) \<le> 1
           \<and> (how = Break \<longrightarrow> yielded \<noteq> [] \<and> is_terminal (last yielded)
                  \<and> length (filter is_terminal yielded) = 1)
           \<and> (\<forall>pre t post.
                 queue s = pre @ t # post
                 \<and> list_all (\<lambda>p. in_done_error (dict_get p ''type'') = NotMember) pre
                 \<and> is_terminal t
                 \<and> (consumer = None \<or> (\<exists>n. consumer = Some n \<and> length pre < n)) \<longrightarrow>
                 yielded = pre @ [t] \<and> length (filter is_terminal yielded) = 1
                 \<and> how = (if consumer = Some (length pre + 1) then Cancelled else Break))
           \<and> (how \<noteq> Waiting \<and> how \<noteq> NotStarted \<longrightarrow> finished s')
           \<and> (how = Waiting \<or> how = NotStarted \<longrightarrow> finished s' = finished s)
           \<and> (how = Waiting \<longrightarrow> consumer = None)
           \<and> (how = NotStarted) = (consumer = Some 0)
           \<and> (how = NotStarted \<longrightarrow> frames = [] \<and> s' = s)"
proof -
  obtain yielded rest where loop: "stream_loop consumer (queue s) = (yielded, how, rest)"
    and fr: "frames = map (sse_frame dumps) yielded"
    and s': "s' = s\<lparr>queue := rest,
                    finished := (if how = Waiting \<or> how = NotStarted then finished s else True)\<rparr>"
    using assms by (auto simp: stream_def split: prod.splits)
  have q: "queue s = yielded @ queue s'"
    using stream_loop_yield_queue [OF loop] s' by simp
  have bl: "list_all (\<lambda>p. \<not> is_terminal p) (butlast yielded)"
    by (rule stream_loop_butlast [OF loop])
  have le: "length (filter is_terminal yielded) \<le> 1"
    by (rule filter_butlast_none [OF bl])
  have br: "how = Break \<longrightarrow> yielded \<noteq> [] \<and> is_terminal (last yielded)
                  \<and> length (filter is_terminal yielded) = 1"
    using stream_loop_break loop filter_last_one [OF bl] by blast
  have reach: "\<forall>pre t post.
                 queue s = pre @ t # post
                 \<and> list_all (\<lambda>p. in_done_error (dict_get p ''type'') = NotMember) pre
                 \<and> is_terminal t
                 \<and> (consumer = None \<or> (\<exists>n. consumer = Some n \<and> length pre < n)) \<longrightarrow>
                 yielded = pre @ [t] \<and> length (filter is_terminal yielded) = 1
                 \<and> how = (if consumer = Some (length pre + 1) then Cancelled else Break)"
  proof (intro allI impI)
    fix pre t post
    assume a: "queue s = pre @ t # post
                 \<and> list_all (\<lambda>p. in_done_error (dict_get p ''type'') = NotMember) pre
                 \<and> is_terminal t
                 \<and> (consumer = None \<or> (\<exists>n. consumer = Some n \<and> length pre < n))"
    then have "stream_loop consumer (queue s)
        = (pre @ [t], if consumer = Some (length pre + 1) then Cancelled else Break, post)"
      using stream_loop_reaches_terminal [of pre t consumer post] by simp
    with loop have y: "yielded = pre @ [t]"
      and h: "how = (if consumer = Some (length pre + 1) then Cancelled else Break)"
      by simp_all
    have "length (filter is_terminal yielded) = 1"
      using filter_last_one [OF bl] y a by simp
    with y h show "yielded = pre @ [t] \<and> length (filter is_terminal yielded) = 1
                 \<and> how = (if consumer = Some (length pre + 1) then Cancelled else Break)"
      by simp
  qed
  have fin: "how \<noteq> Waiting \<and> how \<noteq> NotStarted \<longrightarrow> finished s'"
    using s' by simp
  have unfin: "how = Waiting \<or> how = NotStarted \<longrightarrow> finished s' = finished s"
    using s' by auto
  have wait: "how = Waiting \<longrightarrow> consumer = None"
    using stream_loop_waiting loop by blast
  have ns: "(how = NotStarted) = (consumer = Some 0)"
    by (rule stream_loop_not_started [OF loop])
  have ns': "how = NotStarted \<longrightarrow> frames = [] \<and> s' = s"
    using ns loop fr s' by auto
  show ?thesis
    using q fr bl le br reach fin unfin wait ns ns' by blast
qed

text \<open>
  A log event and then \<open>done\<close>, read to the end: two frames, the loop is left, the
  session is finished, and exactly one terminal event was yielded, last.
\<close>

theorem stream_terminal_last_witness:
  "stream (\<lambda>ensure_ascii payload. ''{}'') None
      \<lparr>queue = [[(''type'', PyStr ''log''), (''message'', PyStr ''hi'')],
                [(''type'', PyStr ''done''), (''answer'', PyStr ''42'')]],
       finished = False, error = None\<rparr>
    = ([\<lparr>data = ''{}''\<rparr>, \<lparr>data = ''{}''\<rparr>], Break, \<lparr>queue = [], finished = True, error = None\<rparr>)
   \<and> (\<exists>yielded.
        [[(''type'', PyStr ''log''), (''message'', PyStr ''hi'')],
         [(''type'', PyStr ''done''), (''answer'', PyStr ''42'')]] = yielded @ []
        \<and> length (filter is_terminal yielded) = 1 \<and> is_terminal (last yielded))"
proof -
  have run: "stream (\<lambda>ensure_ascii payload. ''{}'') None
      \<lparr>queue = [[(''type'', PyStr ''log''), (''message'', PyStr ''hi'')],
                [(''type'', PyStr ''done''), (''answer'', PyStr ''42'')]],
       finished = False, error = None\<rparr>
    = ([\<lparr>data = ''{}''\<rparr>, \<lparr>data = ''{}''\<rparr>], Break, \<lparr>queue = [], finished = True, error = None\<rparr>)"
    by (simp add: stream_def dict_get_def sse_frame_def)
  from stream_terminal_last [OF run] run show ?thesis
    by auto
qed

text \<open>
  The same session with a consumer that goes away after the first frame: the stream
  ends having yielded one frame, that of the log event, and no terminal event at all;
  \<open>done\<close> is still in the queue. So "exactly one terminal event for every session"
  fails for a stream that ends by cancellation.
\<close>

theorem stream_cancelled_no_terminal:
  "stream (\<lambda>ensure_ascii payload. ''{}'') (Some 1)
      \<lparr>queue = [[(''type'', PyStr ''log''), (''message'', PyStr ''hi'')],
                [(''type'', PyStr ''done''), (''answer'', PyStr ''42'')]],
       finished = False, error = None\<rparr>
    = ([\<lparr>data = ''{}''\<rparr>], Cancelled,
       \<lparr>queue = [[(''type'', PyStr ''done''), (''answer'', PyStr ''42'')]], finished = True, error = None\<rparr>)
   \<and> stream_loop (Some 1)
      [[(''type'', PyStr ''log''), (''message'', PyStr ''hi'')],
       [(''type'', PyStr ''done''), (''answer'', PyStr ''42'')]]
    = ([[(''type'', PyStr ''log''), (''message'', PyStr ''hi'')]], Cancelled,
       [[(''type'', PyStr ''done''), (''answer'', PyStr ''42'')]])
   \<and> filter is_terminal [[(''type'', PyStr ''log''), (''message'', PyStr ''hi'')]] = []"
  by (simp add: stream_def sse_frame_def dict_get_def is_terminal_def)

text \<open>
  The ways a stream can end without a terminal event, on small queues: a consumer that
  takes no frame never starts the generator and the session stays unfinished, with the
  queue as it was; a consumer that has to wait at the empty queue and goes away cancels
  the generator inside \<^verbatim>\<open>queue.get()\<close>, which marks the session finished.
\<close>

lemma stream_not_started_unfinished:
  "stream (\<lambda>ensure_ascii payload. ''{}'') (Some 0)
      \<lparr>queue = [[(''type'', PyStr ''done''), (''answer'', PyStr ''42'')]],
       finished = False, error = None\<rparr>
    = ([], NotStarted,
       \<lparr>queue = [[(''type'', PyStr ''done''), (''answer'', PyStr ''42'')]],
        finished = False, error = None\<rparr>)"
  by (simp add: stream_def)

lemma stream_cancelled_in_get:
  "stream (\<lambda>ensure_ascii payload. ''{}'') (Some 2)
      \<lparr>queue = [[(''type'', PyStr ''log''), (''message'', PyStr ''hi'')]],
       finished = False, error = None\<rparr>
    = ([\<lparr>data = ''{}''\<rparr>], Cancelled, \<lparr>queue = [], finished = True, error = None\<rparr>)"
proof -
  have "Some (2::nat) = Some (Suc (Suc 0))"
    by simp
  then show ?thesis
    by (simp only: stream_def) (simp add: sse_frame_def dict_get_def)
qed

section \<open>Properties of the worker\<close>

lemma worker_except_Exception:
  "is_Exception exc \<Longrightarrow>
     worker_except exc = ([Emit [(''type'', PyStr ''error''), (''message'', PyStr (str_exc exc))]], None)"
  by (simp add: worker_except_def)

lemma worker_raised_not_Exception:
  "snd (worker Agent run request) = Some exc \<Longrightarrow> \<not> is_Exception exc"
  by (auto simp: worker_def worker_except_def Let_def split: sum.splits prod.splits if_splits)

lemma worker_last_step: "\<exists>steps. fst (worker Agent run request) = steps @ [SetFinished]"
  by (auto simp: worker_def worker_except_def Let_def split: sum.splits prod.splits if_splits)

lemma run_steps_finished: "finished (run_steps s (steps @ [SetFinished]))"
  by (simp add: run_steps_def)

lemma run_steps_queue: "queue (run_steps s steps) = queue s @ [p. Emit p \<leftarrow> steps]"
proof (induction steps arbitrary: s)
  case Nil
  then show ?case by (simp add: run_steps_def)
next
  case (Cons x xs)
  then show ?case
    by (cases x) (simp_all add: run_steps_def emit_def)
qed

lemma worker_except_BaseException:
  "\<not> is_Exception exc \<Longrightarrow> worker_except exc = ([], Some exc)"
  by (simp add: worker_except_def)

text \<open>
  C2, as amended. With the executor's arguments \<open>ms\<close> and \<open>mspt\<close> as the worker
  computes them: when \<^verbatim>\<open>run\<close> returns an answer the worker emits what the executor
  logged and then \<^verbatim>\<open>{type: done, answer}\<close>. When \<^verbatim>\<open>run\<close> or the constructor raises
  an \<^verbatim>\<open>Exception\<close> it emits \<^verbatim>\<open>{type: error, message: str(exc)}\<close> instead, and no
  exception leaves the worker. When what they raise is a \<^verbatim>\<open>BaseException\<close> that is no
  \<^verbatim>\<open>Exception\<close>, the worker emits no terminal event and that exception leaves the
  worker; nothing else ever leaves it. In every case the last step is
  \<^verbatim>\<open>session.finished.set()\<close>, and the session is finished after the worker's steps.
\<close>

theorem worker_contains_failure:
  fixes Agent :: "'a agent_init" and run :: "'a agent_run"
  assumes ms: "ms = or_default (max_steps request) 20"
      and mspt: "mspt = or_default (max_steps_per_task request) 5"
  shows "(Agent ms mspt = Inr agent \<and> run agent (query request) = (logged, Inr answer) \<longrightarrow>
            worker Agent run request
              = (Construct ms mspt # Run (query request) # map Emit logged
                   @ [Emit [(''type'', PyStr ''done''), (''answer'', PyStr answer)], SetFinished],
                 None))
       \<and> (Agent ms mspt = Inr agent \<and> run agent (query request) = (logged, Inl exc)
            \<and> is_Exception exc \<longrightarrow>
            worker Agent run request
              = (Construct ms mspt # Run (query request) # map Emit logged
                   @ [Emit [(''type'', PyStr ''error''), (''message'', PyStr (str_exc exc))], SetFinished],
                 None))
       \<and> (Agent ms mspt = Inl exc \<and> is_Exception exc \<longrightarrow>
            worker Agent run request
              = ([Construct ms mspt,
                  Emit [(''type'', PyStr ''error''), (''message'', PyStr (str_exc exc))], SetFinished],
                 None))
       \<and> (Agent ms mspt = Inr agent \<and> run agent (query request) = (logged, Inl exc)
            \<and> \<not> is_Exception exc \<longrightarrow>
            worker Agent run request
              = (Construct ms mspt # Run (query request) # map Emit logged @ [SetFinished],
                 Some exc))
       \<and> (Agent ms mspt = Inl exc \<and> \<not> is_Exception exc \<longrightarrow>
            worker Agent run request = ([Construct ms mspt, SetFinished], Some exc))
       \<and> (\<forall>e. snd (worker Agent run request) = Some e \<longrightarrow> \<not> is_Exception e)
       \<and> last (fst (worker Agent run request)) = SetFinished
       \<and> finished (run_steps s (fst (worker Agent run request)))"
proof -
  obtain steps where st: "fst (worker Agent run request) = steps @ [SetFinished]"
    using worker_last_step by blast
  have a: "Agent ms mspt = Inr agent \<and> run agent (query request) = (logged, Inr answer) \<longrightarrow>
            worker Agent run request
              = (Construct ms mspt # Run (query request) # map Emit logged
                   @ [Emit [(''type'', PyStr ''done''), (''answer'', PyStr answer)], SetFinished],
                 None)"
    by (simp add: worker_def ms mspt)
  have b: "Agent ms mspt = Inr agent \<and> run agent (query request) = (logged, Inl exc)
            \<and> is_Exception exc \<longrightarrow>
            worker Agent run request
              = (Construct ms mspt # Run (query request) # map Emit logged
                   @ [Emit [(''type'', PyStr ''error''), (''message'', PyStr (str_exc exc))], SetFinished],
                 None)"
    by (simp add: worker_def ms mspt worker_except_Exception)
  have c: "Agent ms mspt = Inl exc \<and> is_Exception exc \<longrightarrow>
            worker Agent run request
              = ([Construct ms mspt,
                  Emit [(''type'', PyStr ''error''), (''message'', PyStr (str_exc exc))], SetFinished],
                 None)"
    by (simp add: worker_def ms mspt worker_except_Exception)
  have b': "Agent ms mspt = Inr agent \<and> run agent (query request) = (logged, Inl exc)
            \<and> \<not> is_Exception exc \<longrightarrow>
            worker Agent run request
              = (Construct ms mspt # Run (query request) # map Emit logged @ [SetFinished],
                 Some exc)"
    by (simp add: worker_def ms mspt worker_except_BaseException)
  have c': "Agent ms mspt = Inl exc \<and> \<not> is_Exception exc \<longrightarrow>
            worker Agent run request = ([Construct ms mspt, SetFinished], Some exc)"
    by (simp add: worker_def ms mspt worker_except_BaseException)
  have d: "\<forall>e. snd (worker Agent run request) = Some e \<longrightarrow> \<not> is_Exception e"
    using worker_raised_not_Exception by blast
  have e: "last (fst (worker Agent run request)) = SetFinished"
    by (simp add: st)
  have f: "finished (run_steps s (fst (worker Agent run request)))"
    by (simp add: st run_steps_finished)
  show ?thesis
    using a b c b' c' d e f by blast
qed

text \<open>
  An executor that logs one event and answers \<open>42\<close>, and one that raises
  \<^verbatim>\<open>ValueError("boom")\<close>; the request gives no step limits.
\<close>

theorem worker_contains_failure_witness:
  "worker (\<lambda>ms mspt. Inr (ms, mspt))
          (\<lambda>agent q. ([[(''type'', PyStr ''log''), (''message'', PyStr ''hi'')]], Inr ''42''))
          \<lparr>query = ''q'', max_steps = None, max_steps_per_task = None\<rparr>
     = ([Construct 20 5, Run ''q'',
         Emit [(''type'', PyStr ''log''), (''message'', PyStr ''hi'')],
         Emit [(''type'', PyStr ''done''), (''answer'', PyStr ''42'')],
         SetFinished], None)
   \<and> worker (\<lambda>ms mspt. Inr (ms, mspt))
          (\<lambda>agent q. ([], Inl (PyExc OtherException ''boom'')))
          \<lparr>query = ''q'', max_steps = None, max_steps_per_task = None\<rparr>
     = ([Construct 20 5, Run ''q'',
         Emit [(''type'', PyStr ''error''), (''message'', PyStr ''boom'')],
         SetFinished], None)"
proof -
  have ms: "(20::int) = or_default (max_steps \<lparr>query = ''q'', max_steps = None, max_steps_per_task = None\<rparr>) 20"
   and mspt: "(5::int) = or_default (max_steps_per_task \<lparr>query = ''q'', max_steps = None, max_steps_per_task = None\<rparr>) 5"
    by (simp_all add: or_default_def)
  have exc: "is_Exception (PyExc OtherException ''boom'')"
    by (simp add: is_Exception_def)
  show ?thesis
    using worker_contains_failure [OF ms mspt,
            where Agent = "\<lambda>ms mspt. Inr (ms, mspt)" and agent = "(20, 5)"
              and run = "\<lambda>agent q. ([[(''type'', PyStr ''log''), (''message'', PyStr ''hi'')]], Inr ''42'')"
              and logged = "[[(''type'', PyStr ''log''), (''message'', PyStr ''hi'')]]"
              and answer = "''42''"]
          worker_contains_failure [OF ms mspt,
            where Agent = "\<lambda>ms mspt. Inr (ms, mspt)" and agent = "(20, 5)"
              and run = "\<lambda>agent q. ([], Inl (PyExc OtherException ''boom''))"
              and logged = "[]" and exc = "PyExc OtherException ''boom''"]
          exc
    by simp
qed

text \<open>
  An executor whose \<^verbatim>\<open>run\<close> raises \<^verbatim>\<open>SystemExit\<close>, a failure that is no
  \<^verbatim>\<open>Exception\<close>: the worker emits no error event, and the exception leaves the worker.
  So "any failure is turned into an error event and never propagates" fails for it.
\<close>

theorem worker_base_exception_propagates:
  "worker (\<lambda>ms mspt. Inr (ms, mspt))
          (\<lambda>agent q. ([], Inl (PyExc BaseExceptionOnly ''exit'')))
          \<lparr>query = ''q'', max_steps = None, max_steps_per_task = None\<rparr>
     = ([Construct 20 5, Run ''q'', SetFinished], Some (PyExc BaseExceptionOnly ''exit''))"
  by (simp add: worker_def worker_except_def is_Exception_def or_default_def)

text \<open>
  C9, as amended. The first thing the worker does is construct the executor, with the
  caller's \<^verbatim>\<open>max_steps\<close> and \<^verbatim>\<open>max_steps_per_task\<close> where the caller gave a value other
  than 0, and with 20 and 5 where the caller gave none or gave 0. The constructor is
  consulted at these arguments only.
\<close>

theorem worker_agent_arguments:
  fixes Agent :: "'a agent_init" and run :: "'a agent_run"
  shows "(\<exists>steps. fst (worker Agent run request)
           = Construct (case max_steps request of None \<Rightarrow> 20 | Some n \<Rightarrow> if n = 0 then 20 else n)
                       (case max_steps_per_task request of None \<Rightarrow> 5 | Some n \<Rightarrow> if n = 0 then 5 else n)
               # steps)
       \<and> worker Agent run request
           = worker (\<lambda>ms mspt.
                 Agent (case max_steps request of None \<Rightarrow> 20 | Some n \<Rightarrow> if n = 0 then 20 else n)
                       (case max_steps_per_task request of None \<Rightarrow> 5 | Some n \<Rightarrow> if n = 0 then 5 else n))
               run request"
proof -
  have ms: "or_default (max_steps request) 20
              = (case max_steps request of None \<Rightarrow> 20 | Some n \<Rightarrow> if n = 0 then 20 else n)"
   and mspt: "or_default (max_steps_per_task request) 5
              = (case max_steps_per_task request of None \<Rightarrow> 5 | Some n \<Rightarrow> if n = 0 then 5 else n)"
    by (simp_all add: or_default_def)
  have "\<exists>steps. fst (worker Agent run request)
           = Construct (or_default (max_steps request) 20) (or_default (max_steps_per_task request) 5) # steps"
    by (auto simp: worker_def Let_def split: sum.splits prod.splits)
  moreover have "worker Agent run request
      = worker (\<lambda>ms mspt. Agent (or_default (max_steps request) 20) (or_default (max_steps_per_task request) 5))
          run request"
    by (simp add: worker_def)
  ultimately show ?thesis
    by (simp only: ms mspt) 
qed

text \<open>A caller that gives 7 steps and no limit per task.\<close>

theorem worker_agent_arguments_witness:
  "\<exists>steps. fst (worker (\<lambda>ms mspt. Inr (ms, mspt)) (\<lambda>agent q. ([], Inr ''ok''))
                  \<lparr>query = ''q'', max_steps = Some 7, max_steps_per_task = None\<rparr>)
     = Construct 7 5 # steps"
  using worker_agent_arguments [of "\<lambda>ms mspt. Inr (ms, mspt)" "\<lambda>agent q. ([], Inr ''ok'')"
          "\<lparr>query = ''q'', max_steps = Some 7, max_steps_per_task = None\<rparr>", THEN conjunct1]
  by simp

text \<open>
  A caller that gives 0 for both limits: the executor is constructed with 20 and 5, not
  with the caller's values.
\<close>

theorem worker_zero_steps_replaced:
  "worker (\<lambda>ms mspt. Inr (ms, mspt)) (\<lambda>agent q. ([], Inr ''ok''))
          \<lparr>query = ''q'', max_steps = Some 0, max_steps_per_task = Some 0\<rparr>
     = ([Construct 20 5, Run ''q'',
         Emit [(''type'', PyStr ''done''), (''answer'', PyStr ''ok'')], SetFinished], None)"
  by (simp add: worker_def or_default_def)

section \<open>Properties of the streaming endpoint\<close>

lemma event_generator_pop:
  "event_generator dumps consumer sessions run_id session = (frames, how, sessions') \<Longrightarrow>
     (how = Break \<longrightarrow> sessions' = sessions_pop sessions run_id \<and> sessions' run_id = None)
     \<and> (how \<noteq> Break \<longrightarrow> sessions' run_id \<noteq> None)"
  by (auto simp: event_generator_def sessions_pop_def split: prod.splits if_splits)

lemma sessions_pop_idem:
  "sessions_pop (sessions_pop sessions run_id) run_id = sessions_pop sessions run_id"
  by (simp add: sessions_pop_def)

text \<open>
  C7, at the input where the code departs from it. A registered run whose client takes
  the first frame and disconnects: \<^verbatim>\<open>stream_events\<close> passes one frame on, the
  generators are torn down, the session is marked finished, and the run is still in the
  registry, with the \<open>done\<close> event still queued. The \<^verbatim>\<open>pop\<close> after the loop of
  \<^verbatim>\<open>event_generator\<close> was not reached.
\<close>

theorem stream_events_disconnect_keeps_session:
  "stream_events (\<lambda>ensure_ascii payload. ''{}'') (Some 1)
      [''run-1'' \<mapsto> \<lparr>queue = [[(''type'', PyStr ''log''), (''message'', PyStr ''hi'')],
                                [(''type'', PyStr ''done''), (''answer'', PyStr ''42'')]],
                       finished = False, error = None\<rparr>]
      ''run-1''
    = Inr ([\<lparr>data = ''{}''\<rparr>], Cancelled,
           [''run-1'' \<mapsto> \<lparr>queue = [[(''type'', PyStr ''done''), (''answer'', PyStr ''42'')]],
                            finished = True, error = None\<rparr>])"
  by (simp add: stream_events_def event_generator_def stream_def sse_frame_def dict_get_def)



section \<open>Properties of \<^verbatim>\<open>strip\<close> and \<^verbatim>\<open>lower\<close>\<close>

lemma of_char_lower:
  "(of_char (char_lower a) :: nat)
     = (if 65 \<le> (of_char a :: nat) \<and> (of_char a :: nat) \<le> 90 then of_char a + 32 else of_char a)"
  by (simp add: char_lower_def Let_def)

lemma is_space1_lower: "is_space1 (char_lower a) = is_space1 a"
  by (auto simp: is_space1_def of_char_lower Let_def)

lemma is_space2_lower: "is_space2 (char_lower a) (char_lower b) = is_space2 a b"
  by (auto simp: is_space2_def of_char_lower Let_def)

lemma is_space3_lower: "is_space3 (char_lower a) (char_lower b) (char_lower c) = is_space3 a b c"
  by (auto simp: is_space3_def of_char_lower Let_def)

lemma lstrip_lower: "lstrip (map char_lower s) = map char_lower (lstrip s)"
  by (induction s rule: lstrip.induct)
     (simp_all add: is_space1_lower is_space2_lower is_space3_lower)

lemma rstrip_rev_lower: "rstrip_rev (map char_lower s) = map char_lower (rstrip_rev s)"
  by (induction s rule: rstrip_rev.induct)
     (simp_all add: is_space1_lower is_space2_lower is_space3_lower)

lemma str_strip_lower: "str_strip (str_lower s) = str_lower (str_strip s)"
  by (simp add: str_strip_def str_lower_def rstrip_def lstrip_lower rstrip_rev_lower rev_map)

lemma space1_not_space2: "is_space1 a \<or> is_space1 b \<Longrightarrow> \<not> is_space2 a b"
  by (auto simp: is_space1_def is_space2_def Let_def)

lemma space1_not_space3: "is_space1 a \<or> is_space1 b \<or> is_space1 c \<Longrightarrow> \<not> is_space3 a b c"
  by (auto simp: is_space1_def is_space3_def Let_def)

lemma space2_not_space3: "is_space2 a b \<Longrightarrow> \<not> is_space3 a b c"
  by (auto simp: is_space2_def is_space3_def Let_def)

lemma space3_not_space2: "is_space3 a b c \<Longrightarrow> \<not> is_space2 a b \<and> \<not> is_space2 b c"
  by (auto simp: is_space2_def is_space3_def Let_def)

text \<open>
  The table \<open>unicode_whitespace\<close> and the three tests of \<open>lstrip\<close> and \<open>rstrip_rev\<close>
  describe the same characters.
\<close>

lemma whitespace_cases:
  "w \<in> set unicode_whitespace \<Longrightarrow>
     (\<exists>a. w = [a] \<and> is_space1 a) \<or> (\<exists>a b. w = [a, b] \<and> is_space2 a b)
     \<or> (\<exists>a b c. w = [a, b, c] \<and> is_space3 a b c)"
  apply (simp only: unicode_whitespace_def list.set insert_iff empty_iff)
  apply (elim disjE)
  apply (simp_all add: is_space1_def is_space2_def is_space3_def)
  done

lemma codes_in_list:
  "(map of_char w :: nat list) \<in> set nss \<Longrightarrow> w \<in> set (map (map char_of) nss)"
proof -
  assume "(map of_char w :: nat list) \<in> set nss"
  then have "map char_of (map of_char w :: nat list) \<in> map char_of ` set nss"
    by (rule imageI)
  then show ?thesis
    by simp
qed

lemma whitespace_codes:
  "unicode_whitespace = map (map char_of)
     [[9], [10], [11], [12], [13], [28], [29], [30], [31], [32 :: nat],
      [194, 133], [194, 160], [225, 154, 128],
      [226, 128, 128], [226, 128, 129], [226, 128, 130], [226, 128, 131], [226, 128, 132],
      [226, 128, 133], [226, 128, 134], [226, 128, 135], [226, 128, 136], [226, 128, 137],
      [226, 128, 138], [226, 128, 168], [226, 128, 169], [226, 128, 175], [226, 129, 159],
      [227, 128, 128]]"
  by code_simp

lemma space1_in_table: "is_space1 a \<Longrightarrow> [a] \<in> set unicode_whitespace"
  unfolding whitespace_codes
  apply (rule codes_in_list)
  apply (simp add: is_space1_def Let_def)
  apply arith
  done

lemma space2_in_table: "is_space2 a b \<Longrightarrow> [a, b] \<in> set unicode_whitespace"
  unfolding whitespace_codes
  apply (rule codes_in_list)
  apply (simp add: is_space2_def Let_def)
  done

lemma space3_in_table: "is_space3 a b c \<Longrightarrow> [a, b, c] \<in> set unicode_whitespace"
  unfolding whitespace_codes
  apply (rule codes_in_list)
  apply (simp add: is_space3_def Let_def)
  apply (elim disjE conjE)
  apply simp_all
  apply arith
  done

text \<open>The first byte of a whitespace character is never the second or third byte of one.\<close>

lemma space_lead2:
  "is_space1 w0 \<or> is_space2 w0 x \<or> is_space3 w0 x y \<Longrightarrow> \<not> is_space2 a w0"
  by (auto simp: is_space1_def is_space2_def is_space3_def Let_def)

lemma space_lead3:
  "is_space1 w0 \<or> is_space2 w0 x \<or> is_space3 w0 x y \<Longrightarrow> \<not> is_space3 a w0 c"
  by (auto simp: is_space1_def is_space2_def is_space3_def Let_def)

lemma space_lead3':
  "is_space1 w0 \<or> is_space2 w0 x \<or> is_space3 w0 x y \<Longrightarrow> \<not> is_space3 a b w0"
  by (auto simp: is_space1_def is_space2_def is_space3_def Let_def)

lemma whitespace_lead:
  assumes "w \<in> set unicode_whitespace" and "w @ s = w0 # r"
  shows "\<not> is_space2 a w0" and "\<not> is_space3 a w0 c" and "\<not> is_space3 a b w0"
proof -
  consider x where "w = [x]" "is_space1 x"
    | x y where "w = [x, y]" "is_space2 x y"
    | x y z where "w = [x, y, z]" "is_space3 x y z"
    using whitespace_cases [OF assms(1)] by blast
  then have "\<exists>x y. is_space1 w0 \<or> is_space2 w0 x \<or> is_space3 w0 x y"
  proof cases
    case 1
    then have "is_space1 w0"
      using assms(2) by simp
    then show ?thesis by blast
  next
    case 2
    then have "is_space2 w0 y"
      using assms(2) by simp
    then show ?thesis by blast
  next
    case 3
    then have "is_space3 w0 y z"
      using assms(2) by simp
    then show ?thesis by blast
  qed
  then obtain x y where lead: "is_space1 w0 \<or> is_space2 w0 x \<or> is_space3 w0 x y"
    by blast
  show "\<not> is_space2 a w0"
    by (rule space_lead2 [OF lead])
  show "\<not> is_space3 a w0 c"
    by (rule space_lead3 [OF lead])
  show "\<not> is_space3 a b w0"
    by (rule space_lead3' [OF lead])
qed

text \<open>One whitespace character at either end is stripped.\<close>

lemma lstrip_space1: "is_space1 a \<Longrightarrow> lstrip (a # s) = lstrip s"
  by (cases s rule: lstrip.cases) simp_all

lemma lstrip_space2:
  assumes "is_space2 a b"
  shows "lstrip (a # b # s) = lstrip s"
proof -
  have "\<not> is_space1 a"
    using assms space1_not_space2 by blast
  with assms show ?thesis
    by (cases s) simp_all
qed

lemma lstrip_space3:
  assumes "is_space3 a b c"
  shows "lstrip (a # b # c # s) = lstrip s"
proof -
  have "\<not> is_space1 a"
    using assms space1_not_space3 by blast
  moreover have "\<not> is_space2 a b"
    using assms space3_not_space2 by blast
  ultimately show ?thesis
    using assms by simp
qed

lemma lstrip_whitespace:
  assumes "w \<in> set unicode_whitespace"
  shows "lstrip (w @ s) = lstrip s"
proof -
  consider a where "w = [a]" "is_space1 a"
    | a b where "w = [a, b]" "is_space2 a b"
    | a b c where "w = [a, b, c]" "is_space3 a b c"
    using whitespace_cases [OF assms] by blast
  then show ?thesis
  proof cases
    case 1
    then show ?thesis
      using lstrip_space1 [of a s] by simp
  next
    case 2
    then show ?thesis
      using lstrip_space2 [of a b s] by (simp del: lstrip.simps)
  next
    case 3
    then show ?thesis
      using lstrip_space3 [of a b c s] by (simp del: lstrip.simps)
  qed
qed

lemma rstrip_rev_space1: "is_space1 a \<Longrightarrow> rstrip_rev (a # s) = rstrip_rev s"
  by (cases s rule: rstrip_rev.cases) simp_all

lemma rstrip_rev_space2:
  assumes "is_space2 a b"
  shows "rstrip_rev (b # a # s) = rstrip_rev s"
proof -
  have "\<not> is_space1 b"
    using assms space1_not_space2 by blast
  with assms show ?thesis
    by (cases s) simp_all
qed

lemma rstrip_rev_space3:
  assumes "is_space3 a b c"
  shows "rstrip_rev (c # b # a # s) = rstrip_rev s"
proof -
  have "\<not> is_space1 c"
    using assms space1_not_space3 by blast
  moreover have "\<not> is_space2 b c"
    using assms space3_not_space2 by blast
  ultimately show ?thesis
    using assms by simp
qed

lemma rstrip_rev_whitespace:
  assumes "w \<in> set unicode_whitespace"
  shows "rstrip_rev (rev w @ s) = rstrip_rev s"
proof -
  consider a where "w = [a]" "is_space1 a"
    | a b where "w = [a, b]" "is_space2 a b"
    | a b c where "w = [a, b, c]" "is_space3 a b c"
    using whitespace_cases [OF assms] by blast
  then show ?thesis
  proof cases
    case 1
    then show ?thesis
      using rstrip_rev_space1 [of a s] by simp
  next
    case 2
    then show ?thesis
      using rstrip_rev_space2 [of a b s] by (simp del: rstrip_rev.simps)
  next
    case 3
    then show ?thesis
      using rstrip_rev_space3 [of a b c s] by (simp del: rstrip_rev.simps)
  qed
qed

text \<open>Padding: any number of whitespace characters, one after the other.\<close>

lemma lstrip_padding:
  "list_all (\<lambda>w. w \<in> set unicode_whitespace) pad \<Longrightarrow> lstrip (concat pad @ s) = lstrip s"
  by (induction pad) (simp_all add: lstrip_whitespace)

lemma rstrip_rev_padding:
  "list_all (\<lambda>w. w \<in> set unicode_whitespace) pad \<Longrightarrow>
     rstrip_rev (rev (concat pad) @ s) = rstrip_rev s"
  by (induction pad arbitrary: s) (simp_all add: rstrip_rev_whitespace)

lemma rstrip_padding:
  "list_all (\<lambda>w. w \<in> set unicode_whitespace) pad \<Longrightarrow> rstrip (s @ concat pad) = rstrip s"
  by (simp add: rstrip_def rstrip_rev_padding)

lemma lstrip_only_padding:
  "list_all (\<lambda>w. w \<in> set unicode_whitespace) pad \<Longrightarrow> lstrip (concat pad) = []"
  using lstrip_padding [of pad "[]"] by simp

lemma padding_lead:
  assumes "list_all (\<lambda>w. w \<in> set unicode_whitespace) pad" and "concat pad = w0 # r"
  shows "\<not> is_space2 a w0" and "\<not> is_space3 a w0 c" and "\<not> is_space3 a b w0"
proof -
  have "\<exists>w s. w \<in> set unicode_whitespace \<and> w @ s = w0 # r"
    using assms
  proof (induction pad)
    case Nil
    then show ?case by simp
  next
    case (Cons w pad)
    have "w \<in> set unicode_whitespace"
      using Cons.prems(1) by simp
    moreover have "w @ concat pad = w0 # r"
      using Cons.prems(2) by simp
    ultimately show ?case by blast
  qed
  then show "\<not> is_space2 a w0" and "\<not> is_space3 a w0 c" and "\<not> is_space3 a b w0"
    using whitespace_lead by blast+
qed

text \<open>
  Stripping a string from the left before padding that follows it: the padding is left
  alone, unless the string is itself all whitespace and everything goes.
\<close>

lemma lstrip_append_blank:
  assumes e: "lstrip ws = []"
      and l2: "\<And>w0 r a. ws = w0 # r \<Longrightarrow> \<not> is_space2 a w0"
      and l3: "\<And>w0 r a c. ws = w0 # r \<Longrightarrow> \<not> is_space3 a w0 c"
      and l3': "\<And>w0 r a b. ws = w0 # r \<Longrightarrow> \<not> is_space3 a b w0"
  shows "lstrip (v @ ws) = lstrip v @ ws \<or> (lstrip (v @ ws) = [] \<and> lstrip v = [])"
proof (induction v rule: lstrip.induct)
  case (1 a b c s)
  then show ?case by auto
next
  case (2 a b)
  show ?case
  proof (cases ws)
    case Nil
    then show ?thesis by simp
  next
    case (Cons w0 r)
    show ?thesis
    proof (cases "is_space1 a")
      case True
      then show ?thesis
        using 2 Cons by simp
    next
      case False
      note na = this
      show ?thesis
      proof (cases "is_space2 a b")
        case True
        then show ?thesis
          using na e Cons by simp
      next
        case False
        then show ?thesis
          using na l3' [OF Cons, of a b] Cons by simp
      qed
    qed
  qed
next
  case (3 a)
  show ?case
  proof (cases ws)
    case Nil
    then show ?thesis by simp
  next
    case (Cons w0 r)
    show ?thesis
    proof (cases "is_space1 a")
      case True
      then show ?thesis
        using e Cons by (simp add: lstrip_space1)
    next
      case False
      then show ?thesis
        using l2 [OF Cons, of a] l3 [OF Cons, of a] Cons by (cases r) simp_all
    qed
  qed
next
  case 4
  then show ?case by (simp add: e)
qed

lemma lstrip_append_padding:
  assumes pad: "list_all (\<lambda>w. w \<in> set unicode_whitespace) pad"
  shows "lstrip (v @ concat pad) = lstrip v @ concat pad
           \<or> (lstrip (v @ concat pad) = [] \<and> lstrip v = [])"
proof (rule lstrip_append_blank)
  show "lstrip (concat pad) = []"
    by (rule lstrip_only_padding [OF pad])
next
  fix w0 r a
  assume "concat pad = w0 # r"
  then show "\<not> is_space2 a w0"
    by (rule padding_lead(1) [OF pad])
next
  fix w0 r a c
  assume "concat pad = w0 # r"
  then show "\<not> is_space3 a w0 c"
    by (rule padding_lead(2) [OF pad])
next
  fix w0 r a b
  assume "concat pad = w0 # r"
  then show "\<not> is_space3 a b w0"
    by (rule padding_lead(3) [OF pad])
qed

lemma str_strip_padding:
  assumes "list_all (\<lambda>w. w \<in> set unicode_whitespace) pad1"
      and "list_all (\<lambda>w. w \<in> set unicode_whitespace) pad2"
  shows "str_strip (concat pad1 @ v @ concat pad2) = str_strip v"
proof -
  have l: "lstrip (concat pad1 @ v @ concat pad2) = lstrip (v @ concat pad2)"
    by (rule lstrip_padding [OF assms(1)])
  have "rstrip (lstrip (v @ concat pad2)) = rstrip (lstrip v)"
  proof (cases "lstrip (v @ concat pad2) = lstrip v @ concat pad2")
    case True
    then show ?thesis
      by (simp add: rstrip_padding [OF assms(2)])
  next
    case False
    then have "lstrip (v @ concat pad2) = []" and "lstrip v = []"
      using lstrip_append_padding [OF assms(2), of v] by blast+
    then show ?thesis
      by simp
  qed
  with l show ?thesis
    by (simp add: str_strip_def)
qed

lemma selector_normal_form:
  assumes "list_all (\<lambda>w. w \<in> set unicode_whitespace) pad1"
      and "list_all (\<lambda>w. w \<in> set unicode_whitespace) pad2"
      and "str_lower v' = str_lower v"
  shows "str_lower (str_strip (concat pad1 @ v' @ concat pad2)) = str_lower (str_strip v)"
  using assms by (simp add: str_strip_padding flip: str_strip_lower)

lemma normal_none: "str_lower (str_strip ''none'') = ''none''"
  by code_simp

lemma normal_function_calling: "str_lower (str_strip ''function_calling'') = ''function_calling''"
  by code_simp

lemma normal_json_schema: "str_lower (str_strip ''json_schema'') = ''json_schema''"
  by code_simp

lemma normal_bind: "str_lower (str_strip ''bind'') = ''bind''"
  by code_simp

section \<open>Properties of \<^verbatim>\<open>call_llm\<close>\<close>

text \<open>
  C3. With \<open>p n\<close> what the provider does at attempt \<open>n\<close> for the chain and prompt of the
  call: a response at any attempt is returned at once, with no further call; an
  \<^verbatim>\<open>APIConnectionError\<close> at attempt 0 is followed by a sleep of 0.5 s and attempt 1, one
  at attempt 1 by a sleep of 1 s and attempt 2, and one at attempt 2 is raised as it is,
  after three calls and no third sleep; any other exception is raised as it is at the
  attempt where it occurs, with no sleep and no call after it. The call never falls off
  the end of the loop.
\<close>

theorem call_llm_retry:
  fixes invoke :: "('s, 't) chain \<Rightarrow> string \<Rightarrow> nat \<Rightarrow> pyexc + 'r"
  assumes p: "p = invoke (build_chain env dsp system_prompt output_schema tools) prompt"
  shows "(p 0 = Inr r \<longrightarrow>
            call_llm env dsp invoke prompt system_prompt output_schema tools
              = ([Invoke 0], Inr (Some r)))
       \<and> (p 0 = Inl e0 \<and> exc_class_of e0 = APIConnectionError \<and> p 1 = Inr r \<longrightarrow>
            call_llm env dsp invoke prompt system_prompt output_schema tools
              = ([Invoke 0, Sleep (1 / 2), Invoke 1], Inr (Some r)))
       \<and> (p 0 = Inl e0 \<and> exc_class_of e0 = APIConnectionError
            \<and> p 1 = Inl e1 \<and> exc_class_of e1 = APIConnectionError \<and> p 2 = Inr r \<longrightarrow>
            call_llm env dsp invoke prompt system_prompt output_schema tools
              = ([Invoke 0, Sleep (1 / 2), Invoke 1, Sleep 1, Invoke 2], Inr (Some r)))
       \<and> (p 0 = Inl e0 \<and> exc_class_of e0 = APIConnectionError
            \<and> p 1 = Inl e1 \<and> exc_class_of e1 = APIConnectionError
            \<and> p 2 = Inl e2 \<and> exc_class_of e2 = APIConnectionError \<longrightarrow>
            call_llm env dsp invoke prompt system_prompt output_schema tools
              = ([Invoke 0, Sleep (1 / 2), Invoke 1, Sleep 1, Invoke 2], Inl e2))
       \<and> (p 0 = Inl e0 \<and> exc_class_of e0 \<noteq> APIConnectionError \<longrightarrow>
            call_llm env dsp invoke prompt system_prompt output_schema tools
              = ([Invoke 0], Inl e0))
       \<and> (p 0 = Inl e0 \<and> exc_class_of e0 = APIConnectionError
            \<and> p 1 = Inl e1 \<and> exc_class_of e1 \<noteq> APIConnectionError \<longrightarrow>
            call_llm env dsp invoke prompt system_prompt output_schema tools
              = ([Invoke 0, Sleep (1 / 2), Invoke 1], Inl e1))
       \<and> (p 0 = Inl e0 \<and> exc_class_of e0 = APIConnectionError
            \<and> p 1 = Inl e1 \<and> exc_class_of e1 = APIConnectionError
            \<and> p 2 = Inl e2 \<and> exc_class_of e2 \<noteq> APIConnectionError \<longrightarrow>
            call_llm env dsp invoke prompt system_prompt output_schema tools
              = ([Invoke 0, Sleep (1 / 2), Invoke 1, Sleep 1, Invoke 2], Inl e2))
       \<and> snd (call_llm env dsp invoke prompt system_prompt output_schema tools) \<noteq> Inr None"
proof -
  have c: "call_llm env dsp invoke prompt system_prompt output_schema tools = retry_loop p [0, 1, 2]"
    by (simp add: call_llm_def p)
  show ?thesis
    unfolding c
    by (auto split: sum.splits prod.splits)
qed

text \<open>
  A provider that fails to connect three times, and one that fails twice and then
  answers.
\<close>

theorem call_llm_retry_witness:
  "call_llm Map.empty ''system'' (\<lambda>chain prompt n. Inl (PyExc APIConnectionError (if n = 2 then ''third'' else ''down'')))
      ''hello'' None (None :: unit option) (None :: unit list option)
     = ([Invoke 0, Sleep (1 / 2), Invoke 1, Sleep 1, Invoke 2],
        (Inl (PyExc APIConnectionError ''third'') :: pyexc + string option))
   \<and> call_llm Map.empty ''system''
        (\<lambda>chain prompt n. if n < 2 then Inl (PyExc APIConnectionError ''down'') else Inr ''answer'')
        ''hello'' None (None :: unit option) (None :: unit list option)
     = ([Invoke 0, Sleep (1 / 2), Invoke 1, Sleep 1, Invoke 2], Inr (Some ''answer''))"
  using call_llm_retry [of "\<lambda>n. Inl (PyExc APIConnectionError (if n = 2 then ''third'' else ''down''))"
          "\<lambda>chain prompt n. Inl (PyExc APIConnectionError (if n = 2 then ''third'' else ''down''))"
          Map.empty "''system''" None "None :: unit option" "None :: unit list option" "''hello''"
          "''x''" "PyExc APIConnectionError ''down''" "PyExc APIConnectionError ''down''"
          "PyExc APIConnectionError ''third''"]
        call_llm_retry [of "\<lambda>n. if n < 2 then Inl (PyExc APIConnectionError ''down'') else Inr ''answer''"
          "\<lambda>chain prompt n. if n < 2 then Inl (PyExc APIConnectionError ''down'') else Inr ''answer''"
          Map.empty "''system''" None "None :: unit option" "None :: unit list option" "''hello''"
          "''answer''" "PyExc APIConnectionError ''down''" "PyExc APIConnectionError ''down''"]
  by simp

text \<open>
  C4. With an output schema supplied and \<open>m\<close> the configured selector as the code
  reads it (stripped and lowered, \<open>function_calling\<close> when the variable is not set):
  \<open>none\<close> leaves the client without schema binding, \<open>function_calling\<close> and
  \<open>json_schema\<close> bind the schema with that method, and any other value binds it with
  \<open>function_calling\<close>; in no case is anything raised, and the chain built this way is
  the one the call invokes.
\<close>

theorem structured_output_mode:
  assumes m: "m = str_lower (str_strip (getenv env ''DEXTER_LLM_STRUCTURED_OUTPUT_METHOD'' ''function_calling''))"
  shows "(m = ''none'' \<longrightarrow>
            runnable (build_chain env dsp system_prompt (Some schema) tools) = Llm)
       \<and> (m = ''function_calling'' \<or> m = ''json_schema'' \<longrightarrow>
            runnable (build_chain env dsp system_prompt (Some schema) tools)
              = WithStructuredOutput schema m)
       \<and> (m \<noteq> ''none'' \<and> m \<noteq> ''function_calling'' \<and> m \<noteq> ''json_schema'' \<longrightarrow>
            runnable (build_chain env dsp system_prompt (Some schema) tools)
              = WithStructuredOutput schema ''function_calling'')
       \<and> (env ''DEXTER_LLM_STRUCTURED_OUTPUT_METHOD'' = None \<longrightarrow>
            runnable (build_chain env dsp system_prompt (Some schema) tools)
              = WithStructuredOutput schema ''function_calling'')
       \<and> (env ''DEXTER_LLM_STRUCTURED_OUTPUT_METHOD'' = Some ''none'' \<longrightarrow>
            runnable (build_chain env dsp system_prompt (Some schema) tools) = Llm)
       \<and> (env ''DEXTER_LLM_STRUCTURED_OUTPUT_METHOD'' = Some ''json_schema'' \<longrightarrow>
            runnable (build_chain env dsp system_prompt (Some schema) tools)
              = WithStructuredOutput schema ''json_schema'')
       \<and> (env ''DEXTER_LLM_STRUCTURED_OUTPUT_METHOD'' = Some ''function_calling'' \<longrightarrow>
            runnable (build_chain env dsp system_prompt (Some schema) tools)
              = WithStructuredOutput schema ''function_calling'')
       \<and> call_llm env dsp invoke prompt system_prompt (Some schema) tools
            = retry_loop (invoke (build_chain env dsp system_prompt (Some schema) tools) prompt) [0, 1, 2]"
proof -
  have r: "runnable (build_chain env dsp system_prompt (Some schema) tools)
             = (if m = ''none'' then Llm
                else if m = ''function_calling'' \<or> m = ''json_schema'' then WithStructuredOutput schema m
                else WithStructuredOutput schema ''function_calling'')"
    by (simp add: build_chain_def select_runnable_def Let_def m)
  have unset: "env ''DEXTER_LLM_STRUCTURED_OUTPUT_METHOD'' = None \<longrightarrow> m = ''function_calling''"
    by (simp add: m getenv_def normal_function_calling)
  have none: "env ''DEXTER_LLM_STRUCTURED_OUTPUT_METHOD'' = Some ''none'' \<longrightarrow> m = ''none''"
    by (simp add: m getenv_def normal_none)
  have js: "env ''DEXTER_LLM_STRUCTURED_OUTPUT_METHOD'' = Some ''json_schema'' \<longrightarrow> m = ''json_schema''"
    by (simp add: m getenv_def normal_json_schema)
  have fc: "env ''DEXTER_LLM_STRUCTURED_OUTPUT_METHOD'' = Some ''function_calling'' \<longrightarrow> m = ''function_calling''"
    by (simp add: m getenv_def normal_function_calling)
  have call: "call_llm env dsp invoke prompt system_prompt (Some schema) tools
            = retry_loop (invoke (build_chain env dsp system_prompt (Some schema) tools) prompt) [0, 1, 2]"
    by (simp add: call_llm_def)
  show ?thesis
    using r unset none js fc call by simp
qed

text \<open>
  The selector set to \<open>xml\<close>, which is no mode the code knows, to \<open>none\<close>, and not set
  at all.
\<close>

theorem structured_output_mode_witness:
  "runnable (build_chain [''DEXTER_LLM_STRUCTURED_OUTPUT_METHOD'' \<mapsto> ''xml''] ''system'' None
       (Some ''Answer'') (None :: unit list option))
     = WithStructuredOutput ''Answer'' ''function_calling''
   \<and> runnable (build_chain [''DEXTER_LLM_STRUCTURED_OUTPUT_METHOD'' \<mapsto> ''none''] ''system'' None
       (Some ''Answer'') (None :: unit list option))
     = Llm
   \<and> runnable (build_chain Map.empty ''system'' None (Some ''Answer'') (None :: unit list option))
     = WithStructuredOutput ''Answer'' ''function_calling''"
proof -
  have xml: "''xml'' = str_lower (str_strip (getenv [''DEXTER_LLM_STRUCTURED_OUTPUT_METHOD'' \<mapsto> ''xml'']
                 ''DEXTER_LLM_STRUCTURED_OUTPUT_METHOD'' ''function_calling''))"
    by code_simp
  have none: "''none'' = str_lower (str_strip (getenv [''DEXTER_LLM_STRUCTURED_OUTPUT_METHOD'' \<mapsto> ''none'']
                 ''DEXTER_LLM_STRUCTURED_OUTPUT_METHOD'' ''function_calling''))"
    by code_simp
  have unset: "''function_calling'' = str_lower (str_strip (getenv Map.empty
                 ''DEXTER_LLM_STRUCTURED_OUTPUT_METHOD'' ''function_calling''))"
    by code_simp
  show ?thesis
    using structured_output_mode [OF xml, of "''system''" None "''Answer''" "None :: unit list option",
            THEN conjunct2, THEN conjunct2, THEN conjunct1]
          structured_output_mode [OF none, of "''system''" None "''Answer''" "None :: unit list option",
            THEN conjunct1]
          structured_output_mode [OF unset, of "''system''" None "''Answer''" "None :: unit list option",
            THEN conjunct2, THEN conjunct1]
    by simp
qed

text \<open>
  C10. Both selectors are read through \<^verbatim>\<open>.strip().lower()\<close>: a configured value padded
  on either side with any number of the whitespace characters \<^verbatim>\<open>strip()\<close> removes
  (the ASCII ones and the others of \<open>unicode_whitespace\<close> alike) and written in any
  mix of upper and lower case gives the same chain, and so the same call, as the value
  itself. This holds for the structured-output selector and for the tool-binding
  selector, whatever else the environment holds and whether a schema or tools are
  supplied.
\<close>

theorem selectors_ignore_case_and_padding:
  assumes "list_all (\<lambda>w. w \<in> set unicode_whitespace) pad1"
      and "list_all (\<lambda>w. w \<in> set unicode_whitespace) pad2"
      and "str_lower v' = str_lower v"
  shows "build_chain (env(''DEXTER_LLM_STRUCTURED_OUTPUT_METHOD'' \<mapsto> concat pad1 @ v' @ concat pad2))
             dsp system_prompt output_schema tools
           = build_chain (env(''DEXTER_LLM_STRUCTURED_OUTPUT_METHOD'' \<mapsto> v))
               dsp system_prompt output_schema tools
       \<and> build_chain (env(''DEXTER_LLM_TOOL_BIND'' \<mapsto> concat pad1 @ v' @ concat pad2))
             dsp system_prompt output_schema tools
           = build_chain (env(''DEXTER_LLM_TOOL_BIND'' \<mapsto> v))
               dsp system_prompt output_schema tools
       \<and> call_llm (env(''DEXTER_LLM_STRUCTURED_OUTPUT_METHOD'' \<mapsto> concat pad1 @ v' @ concat pad2))
             dsp invoke prompt system_prompt output_schema tools
           = call_llm (env(''DEXTER_LLM_STRUCTURED_OUTPUT_METHOD'' \<mapsto> v))
               dsp invoke prompt system_prompt output_schema tools
       \<and> call_llm (env(''DEXTER_LLM_TOOL_BIND'' \<mapsto> concat pad1 @ v' @ concat pad2))
             dsp invoke prompt system_prompt output_schema tools
           = call_llm (env(''DEXTER_LLM_TOOL_BIND'' \<mapsto> v))
               dsp invoke prompt system_prompt output_schema tools"
proof -
  have n: "str_lower (str_strip (concat pad1 @ v' @ concat pad2)) = str_lower (str_strip v)"
    by (rule selector_normal_form [OF assms])
  have s: "select_runnable (env(''DEXTER_LLM_STRUCTURED_OUTPUT_METHOD'' \<mapsto> concat pad1 @ v' @ concat pad2))
               output_schema tools
             = select_runnable (env(''DEXTER_LLM_STRUCTURED_OUTPUT_METHOD'' \<mapsto> v)) output_schema tools"
    by (simp add: select_runnable_def getenv_def n Let_def split: option.splits list.splits)
  have t: "select_runnable (env(''DEXTER_LLM_TOOL_BIND'' \<mapsto> concat pad1 @ v' @ concat pad2))
               output_schema tools
             = select_runnable (env(''DEXTER_LLM_TOOL_BIND'' \<mapsto> v)) output_schema tools"
    by (simp add: select_runnable_def getenv_def n Let_def split: option.splits list.splits)
  show ?thesis
    by (simp only: call_llm_def build_chain_def s t)
qed

text \<open>
  The examples of the claim, \<^verbatim>\<open>" JSON_SCHEMA "\<close> and \<^verbatim>\<open>"NONE"\<close>, and two with
  whitespace outside ASCII: \<^verbatim>\<open>JSON_Schema\<close> between a no-break space (U+00A0) and a
  space on the left and an ideographic space (U+3000) and a tab on the right selects
  \<open>json_schema\<close>; \<^verbatim>\<open>Bind\<close> after a line separator (U+2028) and before a next-line
  character (U+0085) binds the tools, and \<^verbatim>\<open>None\<close> does not.
\<close>

theorem selectors_ignore_case_and_padding_witness:
  "runnable (build_chain [''DEXTER_LLM_STRUCTURED_OUTPUT_METHOD'' \<mapsto> '' JSON_SCHEMA ''] ''system'' None
       (Some ''Answer'') (None :: string list option))
     = WithStructuredOutput ''Answer'' ''json_schema''
   \<and> runnable (build_chain [''DEXTER_LLM_STRUCTURED_OUTPUT_METHOD'' \<mapsto> ''NONE''] ''system'' None
       (Some ''Answer'') (None :: string list option))
     = Llm
   \<and> runnable (build_chain
       [''DEXTER_LLM_STRUCTURED_OUTPUT_METHOD'' \<mapsto>
          [CHR 0xC2, CHR 0xA0, CHR 0x20] @ ''JSON_Schema'' @ [CHR 0xE3, CHR 0x80, CHR 0x80, CHR 0x09]]
       ''system'' None (Some ''Answer'') (None :: string list option))
     = WithStructuredOutput ''Answer'' ''json_schema''
   \<and> runnable (build_chain
       [''DEXTER_LLM_TOOL_BIND'' \<mapsto> [CHR 0xE2, CHR 0x80, CHR 0xA8] @ ''Bind'' @ [CHR 0xC2, CHR 0x85]]
       ''system'' None (None :: string option) (Some [''search'']))
     = BindTools [''search'']
   \<and> runnable (build_chain [''DEXTER_LLM_TOOL_BIND'' \<mapsto> ''None''] ''system'' None
       (None :: string option) (Some [''search'']))
     = Llm"
proof -
  have sp: "list_all (\<lambda>w. w \<in> set unicode_whitespace) ['' '']"
   and nil: "list_all (\<lambda>w. w \<in> set unicode_whitespace) []"
   and left: "list_all (\<lambda>w. w \<in> set unicode_whitespace) [[CHR 0xC2, CHR 0xA0], [CHR 0x20]]"
   and right: "list_all (\<lambda>w. w \<in> set unicode_whitespace) [[CHR 0xE3, CHR 0x80, CHR 0x80], [CHR 0x09]]"
   and ls: "list_all (\<lambda>w. w \<in> set unicode_whitespace) [[CHR 0xE2, CHR 0x80, CHR 0xA8]]"
   and nel: "list_all (\<lambda>w. w \<in> set unicode_whitespace) [[CHR 0xC2, CHR 0x85]]"
    by (simp_all add: unicode_whitespace_def)
  have js: "str_lower ''JSON_SCHEMA'' = str_lower ''json_schema''"
   and js': "str_lower ''JSON_Schema'' = str_lower ''json_schema''"
   and no: "str_lower ''NONE'' = str_lower ''none''"
   and bi: "str_lower ''Bind'' = str_lower ''bind''"
   and no': "str_lower ''None'' = str_lower ''none''"
    by code_simp+
  have a: "build_chain [''DEXTER_LLM_STRUCTURED_OUTPUT_METHOD'' \<mapsto> '' JSON_SCHEMA ''] ''system'' None
             (Some ''Answer'') (None :: string list option)
           = build_chain [''DEXTER_LLM_STRUCTURED_OUTPUT_METHOD'' \<mapsto> ''json_schema''] ''system'' None
             (Some ''Answer'') (None :: string list option)"
    using selectors_ignore_case_and_padding [OF sp sp js, of Map.empty "''system''" None
            "Some ''Answer''" "None :: string list option", THEN conjunct1]
    by simp
  have b: "build_chain [''DEXTER_LLM_STRUCTURED_OUTPUT_METHOD'' \<mapsto> ''NONE''] ''system'' None
             (Some ''Answer'') (None :: string list option)
           = build_chain [''DEXTER_LLM_STRUCTURED_OUTPUT_METHOD'' \<mapsto> ''none''] ''system'' None
             (Some ''Answer'') (None :: string list option)"
    using selectors_ignore_case_and_padding [OF nil nil no, of Map.empty "''system''" None
            "Some ''Answer''" "None :: string list option", THEN conjunct1]
    by simp
  have c: "build_chain
             [''DEXTER_LLM_STRUCTURED_OUTPUT_METHOD'' \<mapsto>
                [CHR 0xC2, CHR 0xA0, CHR 0x20] @ ''JSON_Schema'' @ [CHR 0xE3, CHR 0x80, CHR 0x80, CHR 0x09]]
             ''system'' None (Some ''Answer'') (None :: string list option)
           = build_chain [''DEXTER_LLM_STRUCTURED_OUTPUT_METHOD'' \<mapsto> ''json_schema''] ''system'' None
             (Some ''Answer'') (None :: string list option)"
    using selectors_ignore_case_and_padding [OF left right js', of Map.empty "''system''" None
            "Some ''Answer''" "None :: string list option", THEN conjunct1]
    by simp
  have d: "build_chain
             [''DEXTER_LLM_TOOL_BIND'' \<mapsto> [CHR 0xE2, CHR 0x80, CHR 0xA8] @ ''Bind'' @ [CHR 0xC2, CHR 0x85]]
             ''system'' None (None :: string option) (Some [''search''])
           = build_chain [''DEXTER_LLM_TOOL_BIND'' \<mapsto> ''bind''] ''system'' None
             (None :: string option) (Some [''search''])"
    using selectors_ignore_case_and_padding [OF ls nel bi, of Map.empty "''system''" None
            "None :: string option" "Some [''search'']", THEN conjunct2, THEN conjunct1]
    by simp
  have e: "build_chain [''DEXTER_LLM_TOOL_BIND'' \<mapsto> ''None''] ''system'' None
             (None :: string option) (Some [''search''])
           = build_chain [''DEXTER_LLM_TOOL_BIND'' \<mapsto> ''none''] ''system'' None
             (None :: string option) (Some [''search''])"
    using selectors_ignore_case_and_padding [OF nil nil no', of Map.empty "''system''" None
            "None :: string option" "Some [''search'']", THEN conjunct2, THEN conjunct1]
    by simp
  show ?thesis
    unfolding a b c d e
    by (simp add: build_chain_def select_runnable_def getenv_def
          normal_json_schema normal_none normal_bind)
qed

section \<open>Properties of the event logger\<close>

text \<open>
  C5, as amended. With an empty \<open>result\<close> the \<open>tool_run\<close> event has no \<open>result\<close>
  field. With a non-empty one: when it decodes to a value other than \<^verbatim>\<open>None\<close> (JSON
  \<open>null\<close>), that value is under \<open>result\<close>; when decoding fails, or gives \<^verbatim>\<open>None\<close>,
  the raw string is under \<open>result\<close>, unchanged.
\<close>

theorem log_tool_run_result:
  "(result = [] \<longrightarrow> map_of (log_tool_run loads tool result) ''result'' = None)
   \<and> (result \<noteq> [] \<and> loads result = Some v \<and> v \<noteq> PyNone \<longrightarrow>
        map_of (log_tool_run loads tool result) ''result'' = Some v)
   \<and> (result \<noteq> [] \<and> (loads result = None \<or> loads result = Some PyNone) \<longrightarrow>
        map_of (log_tool_run loads tool result) ''result'' = Some (PyStr result))
   \<and> map_of (log_tool_run loads tool result) ''type'' = Some (PyStr ''tool_run'')
   \<and> map_of (log_tool_run loads tool result) ''tool'' = Some (PyStr tool)"
  by (auto simp: log_tool_run_def Let_def)

text \<open>The three examples of the specification.\<close>

theorem log_tool_run_result_witness:
  "map_of (log_tool_run loads_sample ''search'' '''') ''result'' = None
   \<and> map_of (log_tool_run loads_sample ''search'' (''{'' @ [CHR 0x22] @ ''a'' @ [CHR 0x22] @ '':1}'')) ''result''
       = Some (PyDict [(''a'', PyInt 1)])
   \<and> map_of (log_tool_run loads_sample ''search'' ''not data'') ''result'' = Some (PyStr ''not data'')"
  using log_tool_run_result [where result = "''''" and loads = loads_sample and tool = "''search''"]
        log_tool_run_result [where result = "''{'' @ [CHR 0x22] @ ''a'' @ [CHR 0x22] @ '':1}''"
          and loads = loads_sample and tool = "''search''" and v = "PyDict [(''a'', PyInt 1)]"]
        log_tool_run_result [where result = "''not data''" and loads = loads_sample
          and tool = "''search''"]
  by (simp add: loads_sample_def)

text \<open>
  The result \<^verbatim>\<open>null\<close> is not empty and decodes, to \<^verbatim>\<open>None\<close>; what is put under
  \<open>result\<close> is the string \<^verbatim>\<open>"null"\<close>, not the decoded value.
\<close>

theorem log_tool_run_null_raw:
  "loads_sample ''null'' = Some PyNone
   \<and> map_of (log_tool_run loads_sample ''search'' ''null'') ''result'' = Some (PyStr ''null'')"
  by (simp add: log_tool_run_def loads_sample_def)

lemma str_replace_Nil: "str_replace old new [] = (if old = [] then new else [])"
  by (subst str_replace.simps) simp

lemma str_replace_no_occurrence:
  "old \<noteq> [] \<Longrightarrow> \<not> sublist old s \<Longrightarrow> str_replace old new s = s"
proof (induction s)
  case Nil
  then show ?case by (simp add: str_replace_Nil)
next
  case (Cons c cs)
  have np: "\<not> prefix old (c # cs)"
    using Cons.prems(2) prefix_imp_sublist by blast
  have "\<not> sublist old cs"
    using Cons.prems(2) by (simp add: sublist_Cons_right)
  then have "str_replace old new cs = cs"
    using Cons.IH Cons.prems(1) by simp
  then show ?case
    using np Cons.prems(1) by (subst str_replace.simps) simp
qed

lemma str_replace_first:
  "old \<noteq> [] \<Longrightarrow> \<not> sublist old (a @ butlast old) \<Longrightarrow>
     str_replace old new (a @ old @ b) = a @ new @ str_replace old new b"
proof (induction a)
  case Nil
  then show ?case
    by (subst str_replace.simps) simp
next
  case (Cons c a)
  have "\<not> prefix old ((c # a) @ butlast old)"
    using Cons.prems(2) prefix_imp_sublist by blast
  moreover have "prefix ((c # a) @ butlast old) ((c # a) @ old @ b)"
    by (simp add: prefixeq_butlast prefix_order.order_trans)
  moreover have "length old \<le> length ((c # a) @ butlast old)"
    by simp
  ultimately have np: "\<not> prefix old (c # a @ old @ b)"
    using prefix_length_prefix [of old "(c # a) @ old @ b" "(c # a) @ butlast old"] by auto
  have "\<not> sublist old (a @ butlast old)"
    using Cons.prems(2) by (simp add: sublist_Cons_right)
  then have "str_replace old new (a @ old @ b) = a @ new @ str_replace old new b"
    using Cons.IH Cons.prems(1) by simp
  then show ?case
    using np Cons.prems(1) by (subst str_replace.simps) simp
qed

text \<open>
  C6, as amended. \<^verbatim>\<open>progress\<close> emits \<^verbatim>\<open>{status: start, message}\<close> first. When the
  body completes, it then emits \<^verbatim>\<open>{status: complete}\<close> with the success message, or,
  when that is empty, with the message in which every occurrence of \<^verbatim>\<open>...\<close>, wherever
  it stands, is replaced by \<^verbatim>\<open>" "\<close> and a check mark. When the body raises an
  \<^verbatim>\<open>Exception\<close> it emits \<^verbatim>\<open>{status: error, message: "<message> failed: <str(exc)>"}\<close>
  and the same exception leaves the \<^verbatim>\<open>with\<close> statement. The replacement leaves a
  message without \<^verbatim>\<open>...\<close> as it is, and otherwise replaces the first occurrence and
  goes on behind it.
\<close>

theorem progress_events:
  "(\<exists>rest. fst (progress message success_message body)
       = [(''type'', PyStr ''progress''), (''status'', PyStr ''start''), (''message'', PyStr message)] # rest)
   \<and> (body = (inner, None) \<longrightarrow>
        progress message success_message body
          = ([(''type'', PyStr ''progress''), (''status'', PyStr ''start''), (''message'', PyStr message)]
               # inner @
             [[(''type'', PyStr ''progress''), (''status'', PyStr ''complete''),
               (''message'', PyStr (if success_message \<noteq> [] then success_message
                                     else str_replace ''...'' check_mark message))]],
             None))
   \<and> (body = (inner, Some exc) \<and> is_Exception exc \<longrightarrow>
        progress message success_message body
          = ([(''type'', PyStr ''progress''), (''status'', PyStr ''start''), (''message'', PyStr message)]
               # inner @
             [[(''type'', PyStr ''progress''), (''status'', PyStr ''error''),
               (''message'', PyStr (message @ '' failed: '' @ str_exc exc))]],
             Some exc))
   \<and> (\<not> sublist ''...'' message \<longrightarrow> str_replace ''...'' check_mark message = message)
   \<and> (\<not> sublist ''...'' (a @ ''..'') \<longrightarrow>
        str_replace ''...'' check_mark (a @ ''...'' @ b)
          = a @ check_mark @ str_replace ''...'' check_mark b)"
proof -
  have start: "\<exists>rest. fst (progress message success_message body)
       = [(''type'', PyStr ''progress''), (''status'', PyStr ''start''), (''message'', PyStr message)] # rest"
    by (auto simp: progress_def Let_def split: prod.splits option.splits)
  have no: "\<not> sublist ''...'' message \<longrightarrow> str_replace ''...'' check_mark message = message"
    by (simp add: str_replace_no_occurrence)
  have first: "\<not> sublist ''...'' (a @ ''..'') \<longrightarrow>
        str_replace ''...'' check_mark (a @ ''...'' @ b)
          = a @ check_mark @ str_replace ''...'' check_mark b"
    using str_replace_first [of "''...''" a check_mark b] by simp
  show ?thesis
    using start no first by (simp add: progress_def)
qed

text \<open>The example of the specification, completing and failing.\<close>

theorem progress_events_witness:
  "progress ''Loading...'' '''' ([], None)
     = ([[(''type'', PyStr ''progress''), (''status'', PyStr ''start''), (''message'', PyStr ''Loading...'')],
         [(''type'', PyStr ''progress''), (''status'', PyStr ''complete''),
          (''message'', PyStr (''Loading'' @ check_mark))]], None)
   \<and> progress ''Loading...'' '''' ([], Some (PyExc OtherException ''boom''))
     = ([[(''type'', PyStr ''progress''), (''status'', PyStr ''start''), (''message'', PyStr ''Loading...'')],
         [(''type'', PyStr ''progress''), (''status'', PyStr ''error''),
          (''message'', PyStr ''Loading... failed: boom'')]], Some (PyExc OtherException ''boom''))"
proof -
  have ns: "\<not> sublist ''...'' (''Loading'' @ ''..'')"
    by (simp add: sublist_Cons_right)
  have exc: "is_Exception (PyExc OtherException ''boom'')"
    by (simp add: is_Exception_def)
  show ?thesis
    using progress_events [where message = "''Loading...''" and success_message = "''''"
             and body = "([], None)" and inner = "[]" and a = "''Loading''" and b = "''''"]
          progress_events [where message = "''Loading...''" and success_message = "''''"
             and body = "([], Some (PyExc OtherException ''boom''))" and inner = "[]"
             and exc = "PyExc OtherException ''boom''" and a = "''Loading''" and b = "''''"]
          ns exc
    by (simp add: str_replace_Nil)
qed

text \<open>
  A message with \<^verbatim>\<open>...\<close> in the middle and none at the end: the completion message is
  not the message reused, the ellipsis inside it is replaced.
\<close>

theorem progress_inner_ellipsis_replaced:
  "progress ''Wait... loading'' '''' ([], None)
     = ([[(''type'', PyStr ''progress''), (''status'', PyStr ''start''),
          (''message'', PyStr ''Wait... loading'')],
         [(''type'', PyStr ''progress''), (''status'', PyStr ''complete''),
          (''message'', PyStr (''Wait'' @ check_mark @ '' loading''))]], None)
   \<and> \<not> suffix ''...'' ''Wait... loading''
   \<and> ''Wait'' @ check_mark @ '' loading'' \<noteq> ''Wait... loading''"
proof -
  have "str_replace ''...'' check_mark ''Wait... loading'' = ''Wait'' @ check_mark @ '' loading''"
    by code_simp
  moreover have "\<not> suffix ''...'' ''Wait... loading''"
    by (simp add: suffix_def)
  ultimately show ?thesis
    by (simp add: progress_def check_mark_def)
qed

end
